theory Spec2Isabelle
  imports Main
begin

section \<open>Python strings\<close>

text \<open>
  A Python \<open>str\<close> is modelled as a \<open>string\<close> whose characters are the code points
  below 256. On that range \<open>str.isspace\<close> holds for the code points listed in
  \<open>py_isspace\<close>, and \<open>str.strip()\<close> removes such characters from both ends.
\<close>

definition py_isspace :: "char \<Rightarrow> bool" where
  "py_isspace c = ((of_char c :: nat) \<in> {9, 10, 11, 12, 13, 28, 29, 30, 31, 32, 133, 160})"

definition py_lstrip :: "string \<Rightarrow> string" where
  "py_lstrip s = dropWhile py_isspace s"

definition py_rstrip :: "string \<Rightarrow> string" where
  "py_rstrip s = rev (dropWhile py_isspace (rev s))"

definition py_strip :: "string \<Rightarrow> string" where
  "py_strip s = py_rstrip (py_lstrip s)"

definition startswith :: "string \<Rightarrow> string \<Rightarrow> bool" where
  "startswith s p = (take (length p) s = p)"

definition endswith :: "string \<Rightarrow> string \<Rightarrow> bool" where
  "endswith s p = (length p \<le> length s \<and> drop (length s - length p) s = p)"

section \<open>Score cleanup (\<open>clean_score_data\<close>)\<close>

text \<open>
  \<^verbatim>\<open>
  def clean_score_data(text):
      if not text:
          return ""
      cleaned = text.strip()
      if cleaned.startswith('(') and cleaned.endswith(')'):
          cleaned = cleaned[1:-1]
      return cleaned.strip()
  \<close>
  The slice \<open>cleaned[1:-1]\<close> drops the first and the last character.
\<close>

definition enclosed :: "string \<Rightarrow> bool" where
  "enclosed s = (startswith s ''('' \<and> endswith s '')'')"

definition clean_score_data :: "string \<Rightarrow> string" where
  "clean_score_data text =
     (if text = [] then []
      else let cleaned = py_strip text;
               cleaned = (if enclosed cleaned then butlast (tl cleaned) else cleaned)
           in py_strip cleaned)"

fun py_in :: "string \<Rightarrow> string \<Rightarrow> bool" where
  \<comment> \<open>\<open>sub in s\<close>: \<open>sub\<close> occurs in \<open>s\<close> as a contiguous substring.\<close>
  "py_in sub [] = (sub = [])"
| "py_in sub (c # cs) = (startswith (c # cs) sub \<or> py_in sub cs)"

fun py_split :: "char \<Rightarrow> string \<Rightarrow> string list" where
  \<comment> \<open>\<open>s.split(sep)\<close> for a one-character separator; the result is never empty.\<close>
  "py_split sep [] = [[]]"
| "py_split sep (c # cs) =
     (if c = sep then [] # py_split sep cs
      else (let r = py_split sep cs in (c # hd r) # tl r))"

definition is_ascii_digit :: "char \<Rightarrow> bool" where
  "is_ascii_digit c = (48 \<le> (of_char c :: nat) \<and> (of_char c :: nat) \<le> 57)"

definition py_isdigit_char :: "char \<Rightarrow> bool" where
  \<comment> \<open>Besides \<open>0\<close>..\<open>9\<close>, \<open>str.isdigit\<close> accepts the superscripts U+00B2, U+00B3, U+00B9.\<close>
  "py_isdigit_char c = (is_ascii_digit c \<or> (of_char c :: nat) \<in> {178, 179, 185})"

definition py_isdigit :: "string \<Rightarrow> bool" where
  "py_isdigit s = (s \<noteq> [] \<and> list_all py_isdigit_char s)"

section \<open>Python \<open>int(str)\<close>\<close>

text \<open>
  \<open>int(s)\<close> skips surrounding whitespace (a smaller set than \<open>strip\<close>: the separators
  U+001C..U+001F are not skipped), reads an optional sign and then decimal digits, where
  single underscores may stand between digits. Anything else raises \<open>ValueError\<close>, which
  is the value \<open>None\<close> here. So does a text with more than 4300 digits (the default of
  \<open>sys.int_info.default_max_str_digits\<close>; leading zeros count, underscores and the sign
  do not).
\<close>

definition int_max_str_digits :: nat where
  "int_max_str_digits = 4300"

definition int_isspace :: "char \<Rightarrow> bool" where
  "int_isspace c = ((of_char c :: nat) \<in> {9, 10, 11, 12, 13, 32, 133, 160})"

definition digit_val :: "char \<Rightarrow> int" where
  "digit_val c = int (of_char c) - 48"

fun digits_ok :: "string \<Rightarrow> bool" where
  \<comment> \<open>a digit, then any number of groups of an optional underscore and a digit\<close>
  "digits_ok [] = False"
| "digits_ok [c] = is_ascii_digit c"
| "digits_ok (c # d # cs) =
     (is_ascii_digit c \<and>
      (if d = CHR ''_'' then digits_ok cs else digits_ok (d # cs)))"

definition digits_value :: "string \<Rightarrow> int" where
  "digits_value ds = foldl (\<lambda>acc c. 10 * acc + digit_val c) 0 (filter (\<lambda>c. c \<noteq> CHR ''_'') ds)"

definition py_int :: "string \<Rightarrow> int option" where
  "py_int s =
     (let t = rev (dropWhile int_isspace (rev (dropWhile int_isspace s)));
          neg = (t \<noteq> [] \<and> hd t = CHR ''-'');
          body = (if t \<noteq> [] \<and> (hd t = CHR ''-'' \<or> hd t = CHR ''+'') then tl t else t)
      in if digits_ok body \<and> length (filter (\<lambda>c. c \<noteq> CHR ''_'') body) \<le> int_max_str_digits
         then Some (if neg then - digits_value body else digits_value body)
         else None)"

section \<open>Naive timestamps (\<open>datetime\<close>)\<close>

text \<open>
  \<open>datetime(year, month, day, hour, minute, second)\<close> builds a timestamp without time
  zone from exactly the six numbers given, and raises \<open>ValueError\<close> when one of them is
  out of range. \<open>isoformat()\<close> prints it as \<open>YYYY-MM-DDTHH:MM:SS\<close>.
\<close>

record datetime =
  year :: int
  month :: int
  day :: int
  hour :: int
  minute :: int
  second :: int

definition is_leap :: "int \<Rightarrow> bool" where
  "is_leap y = (if y mod 100 = 0 then y mod 400 = 0 else y mod 4 = 0)"

definition days_in_month :: "int \<Rightarrow> int \<Rightarrow> int" where
  "days_in_month y m =
     (if m = 2 then (if is_leap y then 29 else 28)
      else if m \<in> {4, 6, 9, 11} then 30 else 31)"

definition mk_datetime :: "int \<Rightarrow> int \<Rightarrow> int \<Rightarrow> int \<Rightarrow> int \<Rightarrow> int \<Rightarrow> datetime option" where
  "mk_datetime y mo d h mi s =
     (if 1 \<le> y \<and> y \<le> 9999 \<and> 1 \<le> mo \<and> mo \<le> 12 \<and> 1 \<le> d \<and> d \<le> days_in_month y mo
         \<and> 0 \<le> h \<and> h \<le> 23 \<and> 0 \<le> mi \<and> mi \<le> 59 \<and> 0 \<le> s \<and> s \<le> 59
      then Some \<lparr>year = y, month = mo, day = d, hour = h, minute = mi, second = s\<rparr>
      else None)"

definition digit_char :: "int \<Rightarrow> char" where
  "digit_char d = char_of (48 + nat d)"

definition pad2 :: "int \<Rightarrow> string" where
  "pad2 n = [digit_char (n div 10 mod 10), digit_char (n mod 10)]"

definition pad4 :: "int \<Rightarrow> string" where
  "pad4 n = [digit_char (n div 1000 mod 10), digit_char (n div 100 mod 10),
             digit_char (n div 10 mod 10), digit_char (n mod 10)]"

definition isoformat :: "datetime \<Rightarrow> string" where
  "isoformat t = pad4 (year t) @ ''-'' @ pad2 (month t) @ ''-'' @ pad2 (day t) @ ''T''
                 @ pad2 (hour t) @ '':'' @ pad2 (minute t) @ '':'' @ pad2 (second t)"

section \<open>Embedded-script match array (\<open>MatchDateParser\<close>)\<close>

subsection \<open>\<open>_parse_datetime\<close>\<close>

text \<open>
  \<^verbatim>\<open>
  def _parse_datetime(self, datetime_str):
      try:
          parts = datetime_str.split(',')
          if len(parts) >= 6:
              year = int(parts[0]); month = int(parts[1]); day = int(parts[2])
              hour = int(parts[3]); minute = int(parts[4]); second = int(parts[5])
              return datetime(year, month, day, hour, minute, second)
      except:
          pass
      return None
  \<close>
  Every exception (a field that is no integer, a number out of range) ends in \<open>None\<close>.
\<close>

definition parse_datetime :: "string \<Rightarrow> datetime option" where
  "parse_datetime datetime_str =
     (let parts = py_split CHR '','' datetime_str in
      if 6 \<le> length parts then
        (case py_int (parts ! 0) of None \<Rightarrow> None | Some y \<Rightarrow>
         case py_int (parts ! 1) of None \<Rightarrow> None | Some mo \<Rightarrow>
         case py_int (parts ! 2) of None \<Rightarrow> None | Some d \<Rightarrow>
         case py_int (parts ! 3) of None \<Rightarrow> None | Some h \<Rightarrow>
         case py_int (parts ! 4) of None \<Rightarrow> None | Some mi \<Rightarrow>
         case py_int (parts ! 5) of None \<Rightarrow> None | Some s \<Rightarrow>
           mk_datetime y mo d h mi s)
      else None)"

subsection \<open>\<open>_parse_match_data\<close>\<close>

text \<open>
  The quote-aware scanner of \<open>_parse_match_data\<close>: the loop state is the list of fields
  so far, the field being read and the flag \<open>in_quotes\<close>.
  \<^verbatim>\<open>
  for char in data_str:
      if char == "'" and not in_quotes:
          in_quotes = True
      elif char == "'" and in_quotes:
          in_quotes = False
          parts.append(current)
          current = ""
      elif char == "," and not in_quotes:
          if current.strip():
              parts.append(current.strip())
          current = ""
      else:
          current += char
  if current.strip():
      parts.append(current.strip())
  \<close>
\<close>

fun scan_fields :: "string list \<Rightarrow> string \<Rightarrow> bool \<Rightarrow> string \<Rightarrow> string list \<times> string" where
  "scan_fields parts current in_quotes [] = (parts, current)"
| "scan_fields parts current in_quotes (c # cs) =
     (if c = CHR 0x27 \<and> \<not> in_quotes then scan_fields parts current True cs
      else if c = CHR 0x27 \<and> in_quotes then scan_fields (parts @ [current]) [] False cs
      else if c = CHR '','' \<and> \<not> in_quotes then
        scan_fields (if py_strip current \<noteq> [] then parts @ [py_strip current] else parts)
          [] in_quotes cs
      else scan_fields parts (current @ [c]) in_quotes cs)"

definition split_fields :: "string \<Rightarrow> string list" where
  "split_fields data_str =
     (let (parts, current) = scan_fields [] [] False data_str
      in if py_strip current \<noteq> [] then parts @ [py_strip current] else parts)"

record match_record =
  match_id :: "int option"
  league_id :: "int option"
  home_team_id :: "int option"
  away_team_id :: "int option"
  home_team :: string
  away_team :: string
  match_time :: "datetime option"
  match_datetime_raw :: string

datatype py_error = ValueError | IndexError | UnboundLocalError

definition int_if_digit :: "string \<Rightarrow> py_error + int option" where
  \<comment> \<open>\<open>int(p) if p.isdigit() else None\<close>; \<open>int\<close> raises on the superscript digits
      and on more than 4300 digits.\<close>
  "int_if_digit p =
     (if py_isdigit p then (case py_int p of None \<Rightarrow> Inl ValueError | Some v \<Rightarrow> Inr (Some v))
      else Inr None)"

text \<open>
  The body of the \<open>try\<close> block of \<open>_parse_match_data\<close>: \<open>Inl\<close> is a raised exception,
  \<open>Inr None\<close> the early \<open>return None\<close> for fewer than seven fields. The guards
  \<open>len(parts) > i\<close> of the source hold for every \<open>i \<le> 6\<close> once seven fields are there.
\<close>

definition parse_match_data_try :: "string \<Rightarrow> py_error + match_record option" where
  "parse_match_data_try data_str =
     (let parts = split_fields data_str in
      if length parts < 7 then Inr None
      else
        let datetime_str = (if 6 < length parts then parts ! 6 else []);
            mt = parse_datetime datetime_str
        in case int_if_digit (parts ! 0) of Inl e \<Rightarrow> Inl e | Inr mid \<Rightarrow>
           case (if 1 < length parts then int_if_digit (parts ! 1) else Inr None) of
             Inl e \<Rightarrow> Inl e | Inr lid \<Rightarrow>
           case (if 2 < length parts then int_if_digit (parts ! 2) else Inr None) of
             Inl e \<Rightarrow> Inl e | Inr hid \<Rightarrow>
           case (if 3 < length parts then int_if_digit (parts ! 3) else Inr None) of
             Inl e \<Rightarrow> Inl e | Inr aid \<Rightarrow>
           Inr (Some \<lparr>match_id = mid, league_id = lid, home_team_id = hid, away_team_id = aid,
                      home_team = (if 4 < length parts then parts ! 4 else []),
                      away_team = (if 5 < length parts then parts ! 5 else []),
                      match_time = mt, match_datetime_raw = datetime_str\<rparr>))"

definition parse_match_data :: "string \<Rightarrow> match_record option" where
  \<comment> \<open>\<open>except Exception: return None\<close>\<close>
  "parse_match_data data_str =
     (case parse_match_data_try data_str of Inl e \<Rightarrow> None | Inr r \<Rightarrow> r)"

subsection \<open>\<open>_parse_matches\<close>\<close>

text \<open>
  \<open>re.finditer(r"A\[(\d+)\]=\[(.*?)\];", js_code)\<close> yields the non-overlapping matches from
  left to right. At one position the pattern can match in one way only: the letter and
  \<open>[\<close>, the longest run of digits (at least one), \<open>]=[\<close>, and then the shortest run of
  characters other than a newline that is followed by \<open>];\<close>.
\<close>

fun lazy_body :: "string \<Rightarrow> (string \<times> string) option" where
  \<comment> \<open>\<open>(.*?)\];\<close>: the body and the text after the match\<close>
  "lazy_body [] = None"
| "lazy_body (c # cs) =
     (if startswith (c # cs) ''];'' then Some ([], drop 2 (c # cs))
      else if c = CHR 0x0A then None
      else map_option (\<lambda>(b, r). (c # b, r)) (lazy_body cs))"

definition match_assign :: "char \<Rightarrow> string \<Rightarrow> (string \<times> string \<times> string) option" where
  \<comment> \<open>a match of the pattern at the start of \<open>s\<close>: index digits, body, remaining text\<close>
  "match_assign letter s =
     (if startswith s [letter, CHR ''[''] then
        (let ds = takeWhile is_ascii_digit (drop 2 s);
             r = dropWhile is_ascii_digit (drop 2 s)
         in if ds \<noteq> [] \<and> startswith r '']=['' then
              (case lazy_body (drop 3 r) of
                 None \<Rightarrow> None
               | Some (b, rest) \<Rightarrow> Some (ds, b, rest))
            else None)
      else None)"

lemma lazy_body_shorter: "lazy_body s = Some (b, r) \<Longrightarrow> length r < length s"
  by (induction s arbitrary: b r) (auto split: if_splits)

lemma match_assign_shorter: "match_assign letter s = Some (ds, b, r) \<Longrightarrow> length r < length s"
proof -
  assume m: "match_assign letter s = Some (ds, b, r)"
  let ?r = "dropWhile is_ascii_digit (drop 2 s)"
  from m have "lazy_body (drop 3 ?r) = Some (b, r)"
    by (auto simp: match_assign_def Let_def split: if_splits option.splits)
  then have "length r < length (drop 3 ?r)" by (rule lazy_body_shorter)
  also have "\<dots> \<le> length ?r" by simp
  also have "\<dots> \<le> length (drop 2 s)" by (rule length_dropWhile_le)
  also have "\<dots> \<le> length s" by simp
  finally show ?thesis .
qed

function finditer :: "char \<Rightarrow> string \<Rightarrow> (string \<times> string) list" where
  "finditer letter [] = []"
| "finditer letter (c # cs) =
     (case match_assign letter (c # cs) of
        Some (ds, b, rest) \<Rightarrow> (ds, b) # finditer letter rest
      | None \<Rightarrow> finditer letter cs)"
  by pat_completeness auto
termination
  by (relation "measure (\<lambda>(letter, s). length s)") (auto dest: match_assign_shorter)

text \<open>
  \<^verbatim>\<open>
  for match in re.finditer(pattern, js_code):
      try:
          index = int(match.group(1))
          data_str = match.group(2)
          match_data = self._parse_match_data(data_str)
          if match_data:
              matches.append(match_data)
      except Exception as e:
          logger.warning(f"Match parse error for index {index}: {e}")
          continue
  return matches
  \<close>
  The loop state is the list \<open>matches\<close> and the local variable \<open>index\<close>, which is
  unbound (\<open>None\<close>) until the first assignment. \<open>_parse_match_data\<close> catches its own
  exceptions, so the handler is entered only when \<open>int\<close> raises on the captured digits.
  The handler formats \<open>index\<close>: with \<open>index\<close> still unbound this raises
  \<open>UnboundLocalError\<close>, which leaves \<open>_parse_matches\<close>; otherwise the loop goes on. A
  record is a non-empty dict and therefore true.
\<close>

fun parse_matches_loop ::
  "match_record list \<Rightarrow> int option \<Rightarrow> (string \<times> string) list \<Rightarrow> py_error + match_record list" where
  "parse_matches_loop matches index [] = Inr matches"
| "parse_matches_loop matches index ((group1, data_str) # ms) =
     (case py_int group1 of
        Some i \<Rightarrow>
          (case parse_match_data data_str of
             Some match_data \<Rightarrow> parse_matches_loop (matches @ [match_data]) (Some i) ms
           | None \<Rightarrow> parse_matches_loop matches (Some i) ms)
      | None \<Rightarrow>
          (case index of
             None \<Rightarrow> Inl UnboundLocalError
           | Some i \<Rightarrow> parse_matches_loop matches index ms))"

definition parse_matches :: "string \<Rightarrow> py_error + match_record list" where
  "parse_matches js_code = parse_matches_loop [] None (finditer CHR ''A'' js_code)"

text \<open>
  A record body as the pattern captures it never contains a newline or the closing \<open>];\<close>.
\<close>

definition plain_body :: "string \<Rightarrow> bool" where
  "plain_body b = (\<not> py_in ''];'' b \<and> CHR 0x0A \<notin> set b)"

section \<open>JSON-shaped values\<close>

text \<open>
  The values the endpoints and extractors return: Python \<open>None\<close>, integers, strings,
  lists and dicts with string keys. A dict is the list of its items in insertion order.
\<close>

datatype jv = JNull | JInt int | JStr string | JList "jv list" | JDict "(string \<times> jv) list"

definition dict_get :: "(string \<times> 'v) list \<Rightarrow> string \<Rightarrow> 'v \<Rightarrow> 'v" where
  \<comment> \<open>\<open>d.get(k, default)\<close>\<close>
  "dict_get d k dflt = (case map_of d k of Some v \<Rightarrow> v | None \<Rightarrow> dflt)"

definition opt_int :: "int option \<Rightarrow> jv" where
  "opt_int v = (case v of None \<Rightarrow> JNull | Some i \<Rightarrow> JInt i)"

section \<open>Date listing (\<open>get_matches_by_date\<close>)\<close>

text \<open>
  The result assembly of the date endpoint, after the blob has been parsed:
  \<^verbatim>\<open>
  matches = []
  for match in parsed_data['matches']:
      if match['match_time']:
          league_info = parsed_data['leagues'].get(match['league_id'], {})
          matches.append({
              'match_id': match['match_id'],
              'home_team': match['home_team'],
              'away_team': match['away_team'],
              'match_time': match['match_time'].isoformat() if match['match_time'] else None,
              'league': {'id': match['league_id'],
                         'name': league_info.get('league_name', 'Unknown'),
                         'code': league_info.get('league_code', '')}})
  result = {'date': date_str, 'match_count': len(matches), 'matches': matches,
            'cached_at': datetime.now().isoformat()}
  \<close>
  A \<open>datetime\<close> object is always true, so the test \<open>if match['match_time']\<close> asks whether
  the field is not \<open>None\<close>. The league table maps an integer index to a dict of strings;
  the current time is a parameter.
\<close>

type_synonym leagues = "int \<Rightarrow> (string \<times> string) list option"

definition league_lookup :: "leagues \<Rightarrow> int option \<Rightarrow> (string \<times> string) list" where
  \<comment> \<open>\<open>parsed_data['leagues'].get(match['league_id'], {})\<close>\<close>
  "league_lookup lgs lid =
     (case lid of None \<Rightarrow> []
      | Some i \<Rightarrow> (case lgs i of None \<Rightarrow> [] | Some info \<Rightarrow> info))"

definition format_match :: "leagues \<Rightarrow> match_record \<Rightarrow> jv" where
  "format_match lgs m =
     (let league_info = league_lookup lgs (league_id m) in
      JDict [(''match_id'', opt_int (match_id m)),
             (''home_team'', JStr (home_team m)),
             (''away_team'', JStr (away_team m)),
             (''match_time'', (case match_time m of Some t \<Rightarrow> JStr (isoformat t) | None \<Rightarrow> JNull)),
             (''league'', JDict [(''id'', opt_int (league_id m)),
                                (''name'', JStr (dict_get league_info ''league_name'' ''Unknown'')),
                                (''code'', JStr (dict_get league_info ''league_code'' []))])])"

fun collect_matches :: "leagues \<Rightarrow> jv list \<Rightarrow> match_record list \<Rightarrow> jv list" where
  "collect_matches lgs matches [] = matches"
| "collect_matches lgs matches (m # ms) =
     (case match_time m of
        Some t \<Rightarrow> collect_matches lgs (matches @ [format_match lgs m]) ms
      | None \<Rightarrow> collect_matches lgs matches ms)"

record date_result =
  date :: string
  match_count :: nat
  matches :: "jv list"
  cached_at :: string

definition get_matches_by_date_result ::
  "string \<Rightarrow> string \<Rightarrow> match_record list \<Rightarrow> leagues \<Rightarrow> date_result" where
  "get_matches_by_date_result date_str now parsed_matches lgs =
     (let ms = collect_matches lgs [] parsed_matches
      in \<lparr>date = date_str, match_count = length ms, matches = ms, cached_at = now\<rparr>)"

definition has_time :: "match_record \<Rightarrow> bool" where
  "has_time m = (case match_time m of Some t \<Rightarrow> True | None \<Rightarrow> False)"

section \<open>Upstream client (\<open>fetch_url\<close>)\<close>

definition py_lower_char :: "char \<Rightarrow> char" where
  \<comment> \<open>\<open>str.lower\<close> on the code points below 256: A..Z and U+00C0..U+00DE except U+00D7\<close>
  "py_lower_char c =
     (let n = (of_char c :: nat)
      in if (65 \<le> n \<and> n \<le> 90) \<or> (192 \<le> n \<and> n \<le> 222 \<and> n \<noteq> 215) then char_of (n + 32) else c)"

definition py_lower :: "string \<Rightarrow> string" where
  "py_lower s = map py_lower_char s"

text \<open>
  What one request meets on the network is an input of the model. An exception is one
  of the three classes the handlers of \<open>fetch_url\<close> tell apart, with its message
  \<open>str(e)\<close>. A response carries its status, the message \<open>raise_for_status\<close> would raise
  with, its \<open>content-type\<close> header if any, and what \<open>await response.text()\<close> and
  \<open>await response.json()\<close> give. The three readings of \<open>time.time()\<close> a request can make
  are part of its attempt: at the start, after the status check, and in a handler.
\<close>

datatype exn = ClientError string | JSONDecodeError string | OtherException string

record 'j response =
  status :: nat
  status_error :: string
  content_type_header :: "string option"
  text_result :: "exn + string"
  json_result :: "exn + 'j"

record ('j, 't) attempt =
  get_result :: "exn + 'j response"
  clock_start :: 't
  clock_headers :: 't
  clock_handler :: 't

datatype 'j content = Html string | Json 'j | ErrorInfo "(string \<times> string) list"

type_synonym ('j, 't) fetch_result = "string \<times> 'j content \<times> string \<times> 't"

text \<open>
  The \<open>try\<close> block of \<open>fetch_url\<close>; \<open>Inl\<close> is an exception that leaves it.
  \<^verbatim>\<open>
  async with session.get(url) as response:
      response.raise_for_status()
      fetch_time = time.time() - start_time
      if key == 'h2h_details':
          text = await response.text()
          return key, text, 'html', fetch_time
      else:
          content_type = response.headers.get('content-type', '').lower()
          if 'application/json' in content_type or 'text/javascript' in content_type:
              json_data = await response.json()
              return key, json_data, 'json', fetch_time
          else:
              text = await response.text()
              try:
                  json_data = json.loads(text)
                  return key, json_data, 'json', fetch_time
              except json.JSONDecodeError:
                  return key, {"error": f"Response is not JSON", "content": text[:200]}, 'error', fetch_time
  \<close>
  \<open>json.loads\<close> is a parameter: it returns a value or raises. Only its
  \<open>JSONDecodeError\<close> is caught by the inner handler; any other exception (a
  \<open>ValueError\<close> for a number of more than 4300 digits, a \<open>RecursionError\<close> for deep
  nesting) leaves the \<open>try\<close> block.
\<close>

definition fetch_url_try ::
  "(string \<Rightarrow> exn + 'j) \<Rightarrow> ('j, 't::minus) attempt \<Rightarrow> string \<Rightarrow> string
     \<Rightarrow> exn + ('j, 't) fetch_result" where
  "fetch_url_try loads a url key =
     (case get_result a of
        Inl e \<Rightarrow> Inl e
      | Inr response \<Rightarrow>
          if 400 \<le> status response then Inl (ClientError (status_error response))
          else
            let fetch_time = clock_headers a - clock_start a in
            if key = ''h2h_details'' then
              (case text_result response of
                 Inl e \<Rightarrow> Inl e
               | Inr text \<Rightarrow> Inr (key, Html text, ''html'', fetch_time))
            else
              let content_type =
                    py_lower (case content_type_header response of None \<Rightarrow> [] | Some v \<Rightarrow> v)
              in if py_in ''application/json'' content_type \<or> py_in ''text/javascript'' content_type
                 then
                   (case json_result response of
                      Inl e \<Rightarrow> Inl e
                    | Inr json_data \<Rightarrow> Inr (key, Json json_data, ''json'', fetch_time))
                 else
                   (case text_result response of
                      Inl e \<Rightarrow> Inl e
                    | Inr text \<Rightarrow>
                        (case loads text of
                           Inr json_data \<Rightarrow> Inr (key, Json json_data, ''json'', fetch_time)
                         | Inl e \<Rightarrow>
                             (case e of
                                JSONDecodeError msg \<Rightarrow>
                                  Inr (key,
                                       ErrorInfo [(''error'', ''Response is not JSON''),
                                                  (''content'', take 200 text)],
                                       ''error'', fetch_time)
                              | ClientError msg \<Rightarrow> Inl e
                              | OtherException msg \<Rightarrow> Inl e))))"

text \<open>
  The three handlers: each reads the clock again and returns an \<open>error\<close> result.
  \<^verbatim>\<open>
  except aiohttp.ClientError as e:
      return key, {"error": f"Failed to fetch {url}", "details": str(e)}, 'error', fetch_time
  except json.JSONDecodeError as e:
      return key, {"error": f"Failed to decode JSON from {url}", "details": str(e)}, 'error', fetch_time
  except Exception as e:
      return key, {"error": f"Unexpected error: {str(e)}"}, 'error', fetch_time
  \<close>
\<close>

definition handle_exception ::
  "('j, 't::minus) attempt \<Rightarrow> string \<Rightarrow> string \<Rightarrow> exn \<Rightarrow> ('j, 't) fetch_result" where
  "handle_exception a url key e =
     (case e of
        ClientError msg \<Rightarrow>
          (key, ErrorInfo [(''error'', ''Failed to fetch '' @ url), (''details'', msg)],
           ''error'', clock_handler a - clock_start a)
      | JSONDecodeError msg \<Rightarrow>
          (key, ErrorInfo [(''error'', ''Failed to decode JSON from '' @ url), (''details'', msg)],
           ''error'', clock_handler a - clock_start a)
      | OtherException msg \<Rightarrow>
          (key, ErrorInfo [(''error'', ''Unexpected error: '' @ msg)],
           ''error'', clock_handler a - clock_start a))"

definition fetch_url ::
  "(string \<Rightarrow> exn + 'j) \<Rightarrow> ('j, 't::minus) attempt \<Rightarrow> string \<Rightarrow> string
     \<Rightarrow> ('j, 't) fetch_result" where
  "fetch_url loads a url key =
     (case fetch_url_try loads a url key of
        Inr result \<Rightarrow> result
      | Inl e \<Rightarrow> handle_exception a url key e)"

text \<open>
  \<open>fetch_all_urls\<close> starts one \<open>fetch_url\<close> task per request on the event loop and
  collects them with \<open>asyncio.gather\<close>. The scheduling of the tasks, the connection pool
  they share and the wall clock they read are not part of this model; \<open>fetch_url\<close> is
  modelled for one request at a time.
\<close>

definition says_json :: "string option \<Rightarrow> bool" where
  \<comment> \<open>the test \<open>fetch_url\<close> makes on the \<open>content-type\<close> header\<close>
  "says_json h =
     (let content_type = py_lower (case h of None \<Rightarrow> [] | Some v \<Rightarrow> v)
      in py_in ''application/json'' content_type \<or> py_in ''text/javascript'' content_type)"

text \<open>
  A sample parser that answers as \<open>json.loads\<close> does on the three bodies used below
  (\<open>[1]\<close>, a number of 4301 digits, and text that is no JSON), and a response with
  status 200 that arrives after 2 time units, whose handler would run after 3, and on
  which \<open>response.json()\<close> refuses the content type.
\<close>

definition ex_loads :: "string \<Rightarrow> exn + nat" where
  "ex_loads s =
     (if s = ''[1]'' then Inr 1
      else if s = replicate 4301 CHR ''1''
      then Inl (OtherException ''Exceeds the limit (4300 digits) for integer string conversion'')
      else Inl (JSONDecodeError ''Expecting value''))"

definition ex_attempt :: "string option \<Rightarrow> string \<Rightarrow> (nat, int) attempt" where
  "ex_attempt h body =
     \<lparr>get_result = Inr \<lparr>status = 200, status_error = [], content_type_header = h,
                          text_result = Inr body,
                          json_result = Inl (ClientError ''unexpected mimetype'')\<rparr>,
      clock_start = 10, clock_headers = 12, clock_handler = 13\<rparr>"

section \<open>Parsed documents (BeautifulSoup)\<close>

text \<open>
  A parsed document is a tree of tags and strings. A tag has a name, its attributes (a
  dict of strings) and its children. \<open>tag.text\<close> is the concatenation of all strings
  below the tag; \<open>find\<close> and \<open>find_all\<close> search the descendants of a tag in document
  order. A \<open>Tag\<close> object is always true, so \<open>if not tag\<close> asks whether \<open>find\<close> returned
  \<open>None\<close>.
\<close>

datatype node = Tag string "(string \<times> string) list" "node list" | NavigableString string

fun get_text :: "node \<Rightarrow> string" where
  "get_text (NavigableString s) = s"
| "get_text (Tag nm attrs cs) = concat (map get_text cs)"

fun descendants :: "node \<Rightarrow> node list" where
  "descendants (NavigableString s) = []"
| "descendants (Tag nm attrs cs) = concat (map (\<lambda>c. c # descendants c) cs)"

definition tag_get :: "node \<Rightarrow> string \<Rightarrow> string option" where
  \<comment> \<open>\<open>tag.get(name)\<close>\<close>
  "tag_get n k = (case n of Tag nm attrs cs \<Rightarrow> map_of attrs k | NavigableString s \<Rightarrow> None)"

definition tag_get_or :: "node \<Rightarrow> string \<Rightarrow> string \<Rightarrow> string" where
  \<comment> \<open>\<open>tag.get(name, default)\<close>\<close>
  "tag_get_or n k dflt = (case tag_get n k of None \<Rightarrow> dflt | Some v \<Rightarrow> v)"

definition is_tag :: "string \<Rightarrow> node \<Rightarrow> bool" where
  "is_tag nm n = (case n of Tag m attrs cs \<Rightarrow> m = nm | NavigableString s \<Rightarrow> False)"

fun words_from :: "string \<Rightarrow> string \<Rightarrow> string list" where
  "words_from cur [] = (if cur = [] then [] else [cur])"
| "words_from cur (c # cs) =
     (if py_isspace c then (if cur = [] then words_from [] cs else cur # words_from [] cs)
      else words_from (cur @ [c]) cs)"

definition py_words :: "string \<Rightarrow> string list" where
  \<comment> \<open>\<open>s.split()\<close>: the maximal runs of characters that are not whitespace\<close>
  "py_words s = words_from [] s"

definition py_join :: "string \<Rightarrow> string list \<Rightarrow> string" where
  \<comment> \<open>\<open>sep.join(xs)\<close>\<close>
  "py_join sep xs = (case xs of [] \<Rightarrow> [] | x # r \<Rightarrow> x @ concat (map (\<lambda>y. sep @ y) r))"

definition classes :: "node \<Rightarrow> string list" where
  \<comment> \<open>the \<open>class\<close> attribute is a list of names, split at whitespace\<close>
  "classes n = py_words (tag_get_or n ''class'' [])"

definition has_class :: "string \<Rightarrow> node \<Rightarrow> bool" where
  \<comment> \<open>\<open>class_='name'\<close>\<close>
  "has_class c n = (c \<in> set (classes n))"

definition has_class_like :: "string \<Rightarrow> node \<Rightarrow> bool" where
  \<comment> \<open>\<open>class_=re.compile(text)\<close> for a pattern that is plain text: some class contains it\<close>
  "has_class_like pat n = list_ex (py_in pat) (classes n)"

definition has_attr :: "string \<Rightarrow> string \<Rightarrow> node \<Rightarrow> bool" where
  \<comment> \<open>\<open>id='value'\<close>, \<open>title='value'\<close>\<close>
  "has_attr k v n = (tag_get n k = Some v)"

definition any_tag :: "node \<Rightarrow> bool" where
  "any_tag n = True"

definition match_tr :: "string \<Rightarrow> bool" where
  \<comment> \<open>the pattern \<open>tr\d+_\d+\<close> at the start of the text\<close>
  "match_tr s =
     (startswith s ''tr'' \<and>
      (let ds = takeWhile is_ascii_digit (drop 2 s);
           r = dropWhile is_ascii_digit (drop 2 s)
       in ds \<noteq> [] \<and> startswith r ''_'' \<and> takeWhile is_ascii_digit (drop 1 r) \<noteq> []))"

fun search_tr :: "string \<Rightarrow> bool" where
  \<comment> \<open>\<open>re.compile(r"tr\d+_\d+").search(text)\<close>\<close>
  "search_tr [] = False"
| "search_tr (c # cs) = (match_tr (c # cs) \<or> search_tr cs)"

definition has_row_id :: "node \<Rightarrow> bool" where
  \<comment> \<open>\<open>id=re.compile(r"tr\d+_\d+")\<close>\<close>
  "has_row_id n = (case tag_get n ''id'' of None \<Rightarrow> False | Some v \<Rightarrow> search_tr v)"

definition find_all :: "string \<Rightarrow> (node \<Rightarrow> bool) \<Rightarrow> node \<Rightarrow> node list" where
  "find_all nm p root = filter (\<lambda>n. is_tag nm n \<and> p n) (descendants root)"

definition find_bs :: "string \<Rightarrow> (node \<Rightarrow> bool) \<Rightarrow> node \<Rightarrow> node option" where
  \<comment> \<open>\<open>find\<close>: the first match of \<open>find_all\<close>, or \<open>None\<close>\<close>
  "find_bs nm p root = (case find_all nm p root of [] \<Rightarrow> None | n # ns \<Rightarrow> Some n)"

definition stripped_text :: "node \<Rightarrow> string" where
  \<comment> \<open>\<open>tag.text.strip()\<close>\<close>
  "stripped_text n = py_strip (get_text n)"

text \<open>
  \<open>tag.parent\<close> and \<open>tag.next_sibling\<close> need the place of a tag in the tree: the
  descendants of a tag, each with its parent and the node after it under that parent.
\<close>

fun siblings_ctx :: "node \<Rightarrow> node list \<Rightarrow> (node \<times> node \<times> node option) list" where
  "siblings_ctx parent [] = []"
| "siblings_ctx parent (c # cs) = (c, parent, (case cs of [] \<Rightarrow> None | d # ds \<Rightarrow> Some d)) # siblings_ctx parent cs"

lemma siblings_ctx_member: "(c, p, nx) \<in> set (siblings_ctx parent cs) \<Longrightarrow> c \<in> set cs"
  by (induction cs) auto

function descendants_ctx :: "node \<Rightarrow> (node \<times> node \<times> node option) list" where
  "descendants_ctx (NavigableString s) = []"
| "descendants_ctx (Tag nm attrs cs) =
     concat (map (\<lambda>(c, p, nx). (c, p, nx) # descendants_ctx c) (siblings_ctx (Tag nm attrs cs) cs))"
  by pat_completeness auto
termination
proof (relation "measure size")
  show "wf (measure size)" by simp
next
  fix nm attrs cs and x :: "node \<times> node \<times> node option" and c y p nx
  assume "x \<in> set (siblings_ctx (Tag nm attrs cs) cs)" and "(c, y) = x" and "(p, nx) = y"
  then have "c \<in> set cs" using siblings_ctx_member by metis
  then have "size c < Suc (size_list size cs)" by (simp add: less_Suc_eq_le size_list_estimation')
  then show "(c, Tag nm attrs cs) \<in> measure size" by simp
qed

definition find_ctx :: "string \<Rightarrow> (node \<Rightarrow> bool) \<Rightarrow> node \<Rightarrow> (node \<times> node \<times> node option) option" where
  "find_ctx nm p root =
     (case filter (\<lambda>(n, pa, nx). is_tag nm n \<and> p n) (descendants_ctx root) of
        [] \<Rightarrow> None | x # xs \<Rightarrow> Some x)"

section \<open>Dicts built key by key\<close>

fun dict_set :: "(string \<times> 'v) list \<Rightarrow> string \<Rightarrow> 'v \<Rightarrow> (string \<times> 'v) list" where
  \<comment> \<open>\<open>d[k] = v\<close>: a key already there keeps its place and takes the new value\<close>
  "dict_set [] k v = [(k, v)]"
| "dict_set ((k', v') # d) k v = (if k' = k then (k, v) # d else (k', v') # dict_set d k v)"

definition dict_of_items :: "(string \<times> 'v) list \<Rightarrow> (string \<times> 'v) list" where
  "dict_of_items items = foldl (\<lambda>d (k, v). dict_set d k v) [] items"

definition jget :: "jv \<Rightarrow> string \<Rightarrow> jv" where
  \<comment> \<open>reading a key of a returned dict\<close>
  "jget d k = (case d of JDict items \<Rightarrow> (case map_of items k of Some v \<Rightarrow> v | None \<Rightarrow> JNull)
               | _ \<Rightarrow> JNull)"

section \<open>HTML extractors\<close>

definition not_found :: "string \<Rightarrow> jv" where
  \<comment> \<open>the marker \<open>{"error": message}\<close>\<close>
  "not_found msg = JDict [(''error'', JStr msg)]"

definition text_of_first :: "string \<Rightarrow> node \<Rightarrow> string" where
  \<comment> \<open>\<open>row.find(name).text.strip() if row.find(name) else ""\<close>\<close>
  "text_of_first nm n = (case find_bs nm any_tag n of None \<Rightarrow> [] | Some t \<Rightarrow> stripped_text t)"

subsection \<open>\<open>parse_player_list\<close>\<close>

definition player_data :: "node \<Rightarrow> jv" where
  "player_data player_row =
     JDict [(''player_id'', (case tag_get player_row ''playerid'' of None \<Rightarrow> JNull | Some v \<Rightarrow> JStr v)),
            (''position'', JStr (text_of_first ''b'' player_row)),
            (''number'', JStr (text_of_first ''span'' player_row)),
            (''name'', JStr (text_of_first ''a'' player_row))]"

definition parse_player_list :: "node option \<Rightarrow> jv list" where
  "parse_player_list container =
     (case container of
        None \<Rightarrow> []
      | Some c \<Rightarrow> map player_data (find_all ''div'' (has_class ''player-row'') c))"

subsection \<open>\<open>parse_standings_table\<close>\<close>

text \<open>
  \<^verbatim>\<open>
  def parse_block(rows_block):
      parsed_data = []
      if not rows_block or len(rows_block) < 2:
          return parsed_data
      headers = [th.text.strip() for th in rows_block[0].find_all('th')]
      for data_row in rows_block[1:]:
          cells = data_row.find_all('td')
          if len(cells) == len(headers):
              row_data = {headers[i]: cells[i].text.strip() for i in range(len(headers))}
              parsed_data.append(row_data)
      return parsed_data
  \<close>
\<close>

definition block_headers :: "node \<Rightarrow> string list" where
  "block_headers header_row = map stripped_text (find_all ''th'' any_tag header_row)"

definition row_data :: "string list \<Rightarrow> node list \<Rightarrow> jv" where
  "row_data headers cells = JDict (dict_of_items (zip headers (map (\<lambda>c. JStr (stripped_text c)) cells)))"

fun block_rows :: "string list \<Rightarrow> jv list \<Rightarrow> node list \<Rightarrow> jv list" where
  "block_rows headers parsed_data [] = parsed_data"
| "block_rows headers parsed_data (data_row # rows) =
     (let cells = find_all ''td'' any_tag data_row
      in if length cells = length headers
         then block_rows headers (parsed_data @ [row_data headers cells]) rows
         else block_rows headers parsed_data rows)"

definition parse_block :: "node list \<Rightarrow> jv list" where
  "parse_block rows_block =
     (if length rows_block < 2 then []
      else block_rows (block_headers (hd rows_block)) [] (tl rows_block))"

text \<open>
  \<^verbatim>\<open>
  split_index = -1
  for i, row in enumerate(all_rows):
      if "HT" in row.text and row.find('th'):
          split_index = i
          break
  if split_index != -1:
      ft_rows = all_rows[2:split_index]
      ht_rows = all_rows[split_index+1:]
      ft_headers_row = all_rows[1]
      ht_headers_row = all_rows[split_index]
      data["full_time"] = parse_block([ft_headers_row] + ft_rows)
      data["half_time"] = parse_block([ht_headers_row] + ht_rows)
  return data
  \<close>
  \<open>all_rows[1]\<close> raises \<open>IndexError\<close> when the table has a single row.
\<close>

definition splits_here :: "node \<Rightarrow> bool" where
  "splits_here row = (py_in ''HT'' (get_text row) \<and> find_bs ''th'' any_tag row \<noteq> None)"

fun find_split_index :: "nat \<Rightarrow> node list \<Rightarrow> nat option" where
  \<comment> \<open>the loop over \<open>enumerate(all_rows)\<close>; \<open>None\<close> is \<open>split_index == -1\<close>\<close>
  "find_split_index i [] = None"
| "find_split_index i (row # rows) =
     (if splits_here row then Some i else find_split_index (Suc i) rows)"

definition parse_standings_table :: "node \<Rightarrow> py_error + jv" where
  "parse_standings_table table =
     (let all_rows = find_all ''tr'' any_tag table in
      case find_split_index 0 all_rows of
        None \<Rightarrow> Inr (JDict [(''full_time'', JList []), (''half_time'', JList [])])
      | Some split_index \<Rightarrow>
          let ft_rows = take (split_index - 2) (drop 2 all_rows);
              ht_rows = drop (split_index + 1) all_rows
          in if length all_rows \<le> 1 then Inl IndexError
             else
               let ft_headers_row = all_rows ! 1;
                   ht_headers_row = all_rows ! split_index
               in Inr (JDict [(''full_time'', JList (parse_block ([ft_headers_row] @ ft_rows))),
                              (''half_time'', JList (parse_block ([ht_headers_row] @ ht_rows)))]))"

subsection \<open>\<open>parse_standings\<close>\<close>

text \<open>
  \<^verbatim>\<open>
  standings = {}
  standings_parent_div = soup.find('div', id='porletP4')
  if not standings_parent_div:
      return standings
  home_div = standings_parent_div.find('div', class_='home-div')
  guest_div = standings_parent_div.find('div', class_='guest-div')
  if home_div:
      home_table = home_div.find('table', class_='team-table-home')
      if home_table:
          standings['home_team_standings'] = parse_standings_table(home_table)
  if guest_div: ...
  return standings
  \<close>
\<close>

definition side_standings :: "node \<Rightarrow> string \<Rightarrow> string \<Rightarrow> py_error + jv option" where
  \<comment> \<open>the table of one side, if its \<open>div\<close> and its table are there\<close>
  "side_standings parent div_class table_class =
     (case find_bs ''div'' (has_class div_class) parent of
        None \<Rightarrow> Inr None
      | Some side_div \<Rightarrow>
          (case find_bs ''table'' (has_class table_class) side_div of
             None \<Rightarrow> Inr None
           | Some t \<Rightarrow> (case parse_standings_table t of Inl e \<Rightarrow> Inl e | Inr v \<Rightarrow> Inr (Some v))))"

definition parse_standings :: "node \<Rightarrow> py_error + jv" where
  "parse_standings soup =
     (case find_bs ''div'' (has_attr ''id'' ''porletP4'') soup of
        None \<Rightarrow> Inr (JDict [])
      | Some standings_parent_div \<Rightarrow>
          (case side_standings standings_parent_div ''home-div'' ''team-table-home'' of
             Inl e \<Rightarrow> Inl e
           | Inr home \<Rightarrow>
               (case side_standings standings_parent_div ''guest-div'' ''team-table-guest'' of
                  Inl e \<Rightarrow> Inl e
                | Inr guest \<Rightarrow>
                    Inr (JDict ((case home of None \<Rightarrow> [] | Some v \<Rightarrow> [(''home_team_standings'', v)])
                              @ (case guest of None \<Rightarrow> [] | Some v \<Rightarrow> [(''away_team_standings'', v)]))))))"

subsection \<open>\<open>parse_match_list_table\<close>\<close>

definition cell_text :: "node list \<Rightarrow> nat \<Rightarrow> string" where
  \<comment> \<open>\<open>cells[i].text.strip() if len(cells) > i else ""\<close>\<close>
  "cell_text cells i = (if i < length cells then stripped_text (cells ! i) else [])"

definition span_score :: "node \<Rightarrow> string \<Rightarrow> string" where
  \<comment> \<open>\<open>clean_score_data(span.text) if span else ""\<close> for the span with a class like \<open>pat\<close>\<close>
  "span_score cell pat =
     (case find_bs ''span'' (has_class_like pat) cell of
        None \<Rightarrow> []
      | Some sp \<Rightarrow> clean_score_data (get_text sp))"

fun first_result :: "node list \<Rightarrow> nat list \<Rightarrow> string" where
  \<comment> \<open>the loop over the candidate positions 6..11 for the result column\<close>
  "first_result cells [] = []"
| "first_result cells (cell_idx # idxs) =
     (if cell_idx < length cells
         \<and> stripped_text (cells ! cell_idx) \<noteq> []
         \<and> stripped_text (cells ! cell_idx) \<notin> {[], ''-'', ''?''}
      then stripped_text (cells ! cell_idx)
      else first_result cells idxs)"

definition match_row_data :: "node list \<Rightarrow> jv" where
  "match_row_data cells =
     (let date_text = cell_text cells 1;
          date_text =
            (if date_text = [] then
               (case (case find_bs ''span'' any_tag (cells ! 1) of
                        Some e \<Rightarrow> Some e
                      | None \<Rightarrow> find_bs ''a'' any_tag (cells ! 1)) of
                  None \<Rightarrow> date_text
                | Some date_element \<Rightarrow> stripped_text date_element)
             else date_text);
          result_text =
            (if 11 < length cells then stripped_text (cells ! 11)
             else if 7 < length cells then stripped_text (cells ! 7)
             else []);
          result_text =
            (if result_text = [] then first_result cells [6, 7, 8, 9, 10, 11] else result_text)
      in JDict [(''league'', JStr (cell_text cells 0)),
                (''date'', JStr date_text),
                (''home_team'', JStr (cell_text cells 2)),
                (''score'', JStr (span_score (cells ! 3) ''fscore_'')),
                (''ht_score'', JStr (span_score (cells ! 3) ''hscore_'')),
                (''away_team'', JStr (cell_text cells 4)),
                (''corner'', JStr (span_score (cells ! 5) ''fcorner_'')),
                (''ht_corner'', JStr (span_score (cells ! 5) ''hcorner_'')),
                (''result'', JStr result_text)])"

fun match_rows :: "jv list \<Rightarrow> node list \<Rightarrow> jv list" where
  \<comment> \<open>rows with fewer than eight cells are skipped, so the reads of cells 1, 3 and 5 are in range\<close>
  "match_rows rows [] = rows"
| "match_rows rows (row # data_rows) =
     (let cells = find_all ''td'' any_tag row
      in if length cells < 8 then match_rows rows data_rows
         else match_rows (rows @ [match_row_data cells]) data_rows)"

definition parse_match_list_table :: "node \<Rightarrow> string \<Rightarrow> jv" where
  "parse_match_list_table soup table_id =
     (case find_bs ''table'' (has_attr ''id'' table_id) soup of
        None \<Rightarrow> JList []
      | Some table \<Rightarrow> JList (match_rows [] (find_all ''tr'' has_row_id table)))"

subsection \<open>\<open>parse_injury_suspension\<close>\<close>

definition side_players :: "node \<Rightarrow> string \<Rightarrow> jv" where
  "side_players section div_id =
     (case find_bs ''div'' (has_attr ''id'' div_id) section of
        None \<Rightarrow> JList []
      | Some side_div \<Rightarrow>
          JList (parse_player_list (find_bs ''div'' (has_class ''player-list'') side_div)))"

definition parse_injury_suspension :: "node \<Rightarrow> jv" where
  "parse_injury_suspension soup =
     (case find_bs ''div'' (has_attr ''id'' ''porletP13'') soup of
        None \<Rightarrow> not_found ''Injury and Suspension section (porletP13) not found.''
      | Some injury_section \<Rightarrow>
          JDict [(''home_team'', side_players injury_section ''injuryH''),
                 (''away_team'', side_players injury_section ''injuryG'')])"

subsection \<open>\<open>parse_last_match_lineups\<close>\<close>

definition side_lineup :: "node \<Rightarrow> string \<Rightarrow> jv" where
  "side_lineup section div_id =
     (case find_bs ''div'' (has_attr ''id'' div_id) section of
        None \<Rightarrow> JDict []
      | Some side_div \<Rightarrow>
          (let formation =
                 (case find_bs ''div'' (has_class ''injury'') side_div of
                    None \<Rightarrow> [] | Some f \<Rightarrow> stripped_text f);
               player_lists = find_all ''div'' (has_class ''player-list'') side_div;
               starters = (if 0 < length player_lists
                           then parse_player_list (Some (player_lists ! 0)) else []);
               substitutes = (if 1 < length player_lists
                              then parse_player_list (Some (player_lists ! 1)) else [])
           in JDict [(''formation'', JStr formation),
                     (''starters'', JList starters),
                     (''substitutes'', JList substitutes)]))"

definition parse_last_match_lineups :: "node \<Rightarrow> jv" where
  "parse_last_match_lineups soup =
     (case find_bs ''div'' (has_attr ''id'' ''porletP14'') soup of
        None \<Rightarrow> not_found ''Last Match Lineups section (porletP14) not found.''
      | Some lineup_section \<Rightarrow>
          JDict [(''home_team'', side_lineup lineup_section ''lineupH''),
                 (''away_team'', side_lineup lineup_section ''lineupG'')])"

subsection \<open>\<open>parse_fixture\<close>\<close>

fun fixture_rows :: "jv list \<Rightarrow> node list \<Rightarrow> jv list" where
  "fixture_rows fixtures [] = fixtures"
| "fixture_rows fixtures (row # rows) =
     (let cells = find_all ''td'' any_tag row
      in if length cells = 5
         then fixture_rows
                (fixtures @ [JDict [(''league'', JStr (tag_get_or (cells ! 0) ''title'' [])),
                                    (''date'', JStr (stripped_text (cells ! 1))),
                                    (''type'', JStr (stripped_text (cells ! 2))),
                                    (''opponent'', JStr (stripped_text (cells ! 3))),
                                    (''countdown'', JStr (stripped_text (cells ! 4)))]])
                rows
         else fixture_rows fixtures rows)"

definition parse_fixture_table :: "node option \<Rightarrow> jv list" where
  "parse_fixture_table table =
     (case table of
        None \<Rightarrow> []
      | Some t \<Rightarrow> fixture_rows [] (drop 1 (find_all ''tr'' any_tag t)))"

definition side_fixture :: "node \<Rightarrow> string \<Rightarrow> jv" where
  "side_fixture section div_class =
     (case find_bs ''div'' (has_class div_class) section of
        None \<Rightarrow> JList []
      | Some side_div \<Rightarrow> JList (parse_fixture_table (find_bs ''table'' any_tag side_div)))"

definition parse_fixture :: "node \<Rightarrow> jv" where
  "parse_fixture soup =
     (case find_bs ''div'' (has_attr ''id'' ''porletP12'') soup of
        None \<Rightarrow> not_found ''Fixture section (porletP12) not found.''
      | Some fixture_section \<Rightarrow>
          JDict [(''home_team_fixture'', side_fixture fixture_section ''home-div''),
                 (''away_team_fixture'', side_fixture fixture_section ''guest-div'')])"

subsection \<open>\<open>parse_match_info\<close>\<close>

definition get_logo_url :: "node option \<Rightarrow> string" where
  "get_logo_url img_tag =
     (case img_tag of
        None \<Rightarrow> []
      | Some img \<Rightarrow>
          (let src = tag_get_or img ''src'' []
           in if startswith src ''//'' then ''https:'' @ src else src))"

definition team_name :: "node option \<Rightarrow> string" where
  "team_name team_div =
     (case team_div of
        None \<Rightarrow> []
      | Some d \<Rightarrow> (case find_bs ''div'' (has_class ''sclassName'') d of
                     None \<Rightarrow> [] | Some nm \<Rightarrow> stripped_text nm))"

definition team_logo :: "node option \<Rightarrow> string" where
  "team_logo team_div =
     (case team_div of None \<Rightarrow> [] | Some d \<Rightarrow> get_logo_url (find_bs ''img'' any_tag d))"

definition truthy :: "node \<Rightarrow> bool" where
  \<comment> \<open>a tag is true; a string is true when it is not empty\<close>
  "truthy n = (case n of Tag nm attrs cs \<Rightarrow> True | NavigableString s \<Rightarrow> s \<noteq> [])"

definition py_str :: "(node \<Rightarrow> string) \<Rightarrow> node \<Rightarrow> string" where
  \<comment> \<open>\<open>str(node)\<close>: a string is itself; the markup of a tag is left to \<open>render\<close>\<close>
  "py_str render n = (case n of NavigableString s \<Rightarrow> s | Tag nm attrs cs \<Rightarrow> render n)"

definition stadium_of :: "node option \<Rightarrow> string" where
  "stadium_of other_info_div =
     (case other_info_div of
        None \<Rightarrow> []
      | Some oi \<Rightarrow>
          (case find_ctx ''i'' (has_class ''icon-font-animation'') oi of
             None \<Rightarrow> []
           | Some (stadium_icon, parent, nx) \<Rightarrow> stripped_text parent))"

definition weather_of :: "(node \<Rightarrow> string) \<Rightarrow> node option \<Rightarrow> string" where
  "weather_of render other_info_div =
     (case other_info_div of
        None \<Rightarrow> []
      | Some oi \<Rightarrow>
          (case find_ctx ''i'' (has_class ''icon-weather'') oi of
             None \<Rightarrow> []
           | Some (weather_icon, parent, nx) \<Rightarrow>
               (case nx of
                  None \<Rightarrow> []
                | Some next_sibling \<Rightarrow>
                    if truthy next_sibling then py_strip (py_str render next_sibling) else [])))"

text \<open>
  The score block of \<open>parse_match_info\<close>; every field starts as the empty string.
  \<^verbatim>\<open>
  score_container = header.find('div', id='mScore')
  if score_container:
      state_div = score_container.find('div', class_='state')
      if state_div:
          score_info["status"] = state_div.text.strip()
      scores = score_container.find_all('div', class_='score')
      if len(scores) == 2:
          score_info["home_score"] = scores[0].text.strip()
          score_info["away_score"] = scores[1].text.strip()
      ht_score_span = score_container.find('span', title='Score 1st Half')
      if ht_score_span:
          ht_score_full = ht_score_span.text.strip()
          score_info["ht_score"] = ht_score_full
          if '-' in ht_score_full:
              parts = ht_score_full.split('-')
              score_info["ht_home_score"] = parts[0]
              score_info["ht_away_score"] = parts[1]
  \<close>
  A text that contains \<open>-\<close> splits into at least two parts, so \<open>parts[1]\<close> is in range.
\<close>

definition ht_scores :: "node option \<Rightarrow> string \<times> string \<times> string" where
  \<comment> \<open>\<open>ht_score\<close>, \<open>ht_home_score\<close>, \<open>ht_away_score\<close> from the first-half span, if any\<close>
  "ht_scores ht_score_span =
     (case ht_score_span of
        None \<Rightarrow> ([], [], [])
      | Some sp \<Rightarrow>
          (let ht_score_full = stripped_text sp
           in if py_in ''-'' ht_score_full
              then (let parts = py_split CHR ''-'' ht_score_full
                    in (ht_score_full, parts ! 0, parts ! 1))
              else (ht_score_full, [], [])))"

definition score_info :: "node \<Rightarrow> jv" where
  "score_info header =
     (case find_bs ''div'' (has_attr ''id'' ''mScore'') header of
        None \<Rightarrow>
          JDict [(''status'', JStr []), (''home_score'', JStr []), (''away_score'', JStr []),
                 (''ht_score'', JStr []), (''ht_home_score'', JStr []), (''ht_away_score'', JStr [])]
      | Some score_container \<Rightarrow>
          (let status_text =
                 (case find_bs ''div'' (has_class ''state'') score_container of
                    None \<Rightarrow> [] | Some state_div \<Rightarrow> stripped_text state_div);
               scores = find_all ''div'' (has_class ''score'') score_container;
               home_score = (if length scores = 2 then stripped_text (scores ! 0) else []);
               away_score = (if length scores = 2 then stripped_text (scores ! 1) else []);
               (ht, ht_home, ht_away) =
                 ht_scores (find_bs ''span'' (has_attr ''title'' ''Score 1st Half'') score_container)
           in JDict [(''status'', JStr status_text), (''home_score'', JStr home_score),
                     (''away_score'', JStr away_score), (''ht_score'', JStr ht),
                     (''ht_home_score'', JStr ht_home), (''ht_away_score'', JStr ht_away)]))"

definition parse_match_info :: "(node \<Rightarrow> string) \<Rightarrow> node \<Rightarrow> jv" where
  "parse_match_info render soup =
     (case find_bs ''div'' (has_attr ''id'' ''fbheader'') soup of
        None \<Rightarrow> not_found ''Match info header (fbheader) not found.''
      | Some header \<Rightarrow>
          (let home_team_div = find_bs ''div'' (has_class ''home'') header;
               guest_team_div = find_bs ''div'' (has_class ''guest'') header;
               other_info_div = find_bs ''div'' (has_attr ''id'' ''otherInfo'') header;
               league_text =
                 (case find_bs ''span'' (has_class ''sclassLink'') header of
                    None \<Rightarrow> []
                  | Some league_span \<Rightarrow> py_join '' '' (py_words (get_text league_span)))
           in JDict [(''league'', JStr league_text),
                     (''match_time_utc'',
                        JStr (case find_bs ''span'' (has_class ''time'') header of
                                None \<Rightarrow> [] | Some t \<Rightarrow> tag_get_or t ''data-t'' [])),
                     (''home_team_name'', JStr (team_name home_team_div)),
                     (''home_team_logo_url'', JStr (team_logo home_team_div)),
                     (''away_team_name'', JStr (team_name guest_team_div)),
                     (''away_team_logo_url'', JStr (team_logo guest_team_div)),
                     (''stadium'', JStr (stadium_of other_info_div)),
                     (''weather'', JStr (weather_of render other_info_div)),
                     (''score_info'', score_info header)]))"

section \<open>The specification's wording, for comparison\<close>

text \<open>
  The specification places the split of a standings table at the row whose header cell
  equals \<open>HT\<close>, and describes the answer to a missing container as a dict
  \<open>{error: ...}\<close>. Both readings are written down here, to be compared with
  \<open>splits_here\<close> and with what the extractors return.
\<close>

definition header_cell_is_HT :: "node \<Rightarrow> bool" where
  "header_cell_is_HT row = list_ex (\<lambda>th. stripped_text th = ''HT'') (find_all ''th'' any_tag row)"

definition is_not_found_marker :: "jv \<Rightarrow> bool" where
  \<comment> \<open>a dict with the one key \<open>error\<close> and a text\<close>
  "is_not_found_marker v =
     (case v of JDict [(k, JStr msg)] \<Rightarrow> k = ''error'' | _ \<Rightarrow> False)"

section \<open>Sample documents\<close>

definition cell :: "string \<Rightarrow> string \<Rightarrow> node" where
  "cell nm txt = Tag nm [] [NavigableString txt]"

definition table_row :: "node list \<Rightarrow> node" where
  "table_row cells = Tag ''tr'' [] cells"

definition ex_empty_doc :: node where
  "ex_empty_doc = Tag ''[document]'' [] [Tag ''html'' [] [Tag ''body'' [] []]]"

text \<open>A match header whose first-half score has a home part only.\<close>

definition ex_half_score_doc :: node where
  "ex_half_score_doc =
     Tag ''[document]'' []
       [Tag ''div'' [(''id'', ''fbheader'')]
          [Tag ''div'' [(''id'', ''mScore'')]
             [Tag ''span'' [(''title'', ''Score 1st Half'')] [NavigableString '' 1- '']]]]"

definition ex_full_score_doc :: node where
  "ex_full_score_doc =
     Tag ''[document]'' []
       [Tag ''div'' [(''id'', ''fbheader'')]
          [Tag ''div'' [(''id'', ''mScore'')]
             [Tag ''span'' [(''title'', ''Score 1st Half'')] [NavigableString ''1-0'']]]]"

definition no_markup :: "node \<Rightarrow> string" where
  "no_markup n = []"

text \<open>
  A standings table whose title row spells the team name in capitals, and the same
  table with the name in mixed case and one ragged row.
\<close>

definition ex_titled_table :: node where
  "ex_titled_table =
     Tag ''table'' [(''class'', ''team-table-home'')]
       [table_row [cell ''th'' ''BRIGHTON''],
        table_row [cell ''th'' ''FT'', cell ''th'' ''Pts''],
        table_row [cell ''td'' ''Total'', cell ''td'' ''30''],
        table_row [cell ''th'' ''HT'', cell ''th'' ''Pts''],
        table_row [cell ''td'' ''Total'', cell ''td'' ''20'']]"

definition ex_plain_table :: node where
  "ex_plain_table =
     Tag ''table'' [(''class'', ''team-table-home'')]
       [table_row [cell ''th'' ''Brighton''],
        table_row [cell ''th'' ''FT'', cell ''th'' ''Pts''],
        table_row [cell ''td'' ''Total'', cell ''td'' ''30''],
        table_row [cell ''td'' ''Home'', cell ''td'' ''18'', cell ''td'' ''x''],
        table_row [cell ''th'' ''HT'', cell ''th'' ''Pts''],
        table_row [cell ''td'' ''Total'', cell ''td'' ''20'']]"

section \<open>A block of a standings table, as a filter\<close>

definition cells_of :: "node \<Rightarrow> node list" where
  "cells_of data_row = find_all ''td'' any_tag data_row"

definition fits_header :: "node \<Rightarrow> node \<Rightarrow> bool" where
  \<comment> \<open>as many value cells as the header row has header cells\<close>
  "fits_header header_row data_row = (length (cells_of data_row) = length (block_headers header_row))"

definition accepted_rows :: "node \<Rightarrow> node list \<Rightarrow> jv list" where
  \<comment> \<open>the rows that fit the header, each keyed by the header texts\<close>
  "accepted_rows header_row rows =
     map (\<lambda>r. row_data (block_headers header_row) (cells_of r)) (filter (fits_header header_row) rows)"

section \<open>Datetime strings that denote a timestamp\<close>






section \<open>Facts about stripping\<close>

lemma py_lstrip_idem: "py_lstrip (py_lstrip s) = py_lstrip s"
  by (simp add: py_lstrip_def)

lemma py_rstrip_idem: "py_rstrip (py_rstrip s) = py_rstrip s"
  by (simp add: py_rstrip_def)

lemma py_lstrip_fixed: "s = [] \<or> \<not> py_isspace (hd s) \<Longrightarrow> py_lstrip s = s"
  by (cases s) (auto simp: py_lstrip_def)

lemma py_lstrip_head: "py_lstrip s = [] \<or> \<not> py_isspace (hd (py_lstrip s))"
  unfolding py_lstrip_def using hd_dropWhile [of py_isspace s] by blast

lemma py_rstrip_keeps_head:
  assumes "s = [] \<or> \<not> py_isspace (hd s)"
  shows "py_rstrip s = [] \<or> \<not> py_isspace (hd (py_rstrip s))"
proof (cases s)
  case Nil
  then show ?thesis by (simp add: py_rstrip_def)
next
  case (Cons c cs)
  with assms have c: "\<not> py_isspace c" by simp
  have "dropWhile py_isspace (rev cs @ [c]) = dropWhile py_isspace (rev cs) @ [c]"
    by (induction "rev cs" arbitrary: cs) (use c in \<open>auto simp: dropWhile_append\<close>)
  then have "py_rstrip s = c # rev (dropWhile py_isspace (rev cs))"
    by (simp add: py_rstrip_def Cons)
  with c show ?thesis by simp
qed

lemma py_strip_idem: "py_strip (py_strip s) = py_strip s"
proof -
  have "py_lstrip (py_strip s) = py_strip s"
    unfolding py_strip_def
    by (rule py_lstrip_fixed) (rule py_rstrip_keeps_head [OF py_lstrip_head])
  then show ?thesis
    by (simp add: py_strip_def py_rstrip_idem)
qed

lemma py_strip_Nil: "py_strip [] = []"
  by (simp add: py_strip_def py_lstrip_def py_rstrip_def)

lemma clean_score_data_step:
  "\<not> enclosed (clean_score_data s) \<Longrightarrow> clean_score_data (clean_score_data s) = clean_score_data s"
proof -
  assume ne: "\<not> enclosed (clean_score_data s)"
  have stripped: "py_strip (clean_score_data s) = clean_score_data s"
    by (simp add: clean_score_data_def Let_def py_strip_idem py_strip_Nil)
  show ?thesis
  proof (cases "clean_score_data s = []")
    case True
    then show ?thesis by (simp add: clean_score_data_def)
  next
    case False
    have "clean_score_data (clean_score_data s) =
          (let cleaned = py_strip (clean_score_data s);
               cleaned = (if enclosed cleaned then butlast (tl cleaned) else cleaned)
           in py_strip cleaned)"
      using False by (subst clean_score_data_def) simp
    also have "\<dots> = clean_score_data s"
      using ne stripped by (simp add: Let_def)
    finally show ?thesis .
  qed
qed

section \<open>Facts about the match-array parser\<close>

lemma parse_matches_loop_within_cap:
  "list_all (\<lambda>m. py_int (fst m) \<noteq> None) ms \<Longrightarrow>
     parse_matches_loop acc idx ms = Inr (acc @ List.map_filter parse_match_data (map snd ms))"
  by (induction ms arbitrary: acc idx) (auto simp: List.map_filter_simps split: option.splits)

lemma digit_is_plain:
  "is_ascii_digit c \<Longrightarrow> \<not> int_isspace c \<and> c \<noteq> CHR ''-'' \<and> c \<noteq> CHR ''+'' \<and> c \<noteq> CHR ''_''"
  by (auto simp: is_ascii_digit_def int_isspace_def)

lemma py_int_over_cap:
  assumes "list_all is_ascii_digit ds" and "int_max_str_digits < length ds"
  shows "py_int ds = None"
proof -
  from assms(2) have ne: "ds \<noteq> []" by auto
  have plain: "\<forall>c \<in> set ds. \<not> int_isspace c \<and> c \<noteq> CHR ''_''"
    using assms(1) digit_is_plain by (auto simp: list_all_iff)
  have hd_ok: "\<not> int_isspace (hd ds)" "hd ds \<noteq> CHR ''-''" "hd ds \<noteq> CHR ''+''"
    using assms(1) ne digit_is_plain [of "hd ds"] by (auto simp: list_all_iff)
  have last_ok: "\<not> int_isspace (hd (rev ds))"
    using plain ne by (simp add: hd_rev)
  have l: "dropWhile int_isspace ds = ds"
    using ne hd_ok(1) by (cases ds) auto
  have r: "dropWhile int_isspace (rev ds) = rev ds"
    using ne last_ok by (cases "rev ds") auto
  have f: "filter (\<lambda>c. c \<noteq> CHR ''_'') ds = ds"
    using plain by (simp add: filter_id_conv)
  show ?thesis
    using ne hd_ok assms(2) by (simp add: py_int_def Let_def l r f)
qed

lemma short_record_None: "length (split_fields b) < 7 \<Longrightarrow> parse_match_data b = None"
  by (simp add: parse_match_data_def parse_match_data_try_def Let_def)

lemma lazy_body_plain:
  "plain_body b \<Longrightarrow> lazy_body (b @ ''];'' @ rest) = Some (b, rest)"
proof (induction b)
  case Nil
  then show ?case by (simp add: startswith_def)
next
  case (Cons c cs)
  from Cons.prems have nl: "c \<noteq> CHR 0x0A" and pc: "plain_body cs"
    and ns: "\<not> startswith (c # cs) ''];''"
    by (auto simp: plain_body_def)
  have "\<not> startswith (c # cs @ ''];'' @ rest) ''];''"
  proof (cases cs)
    case Nil
    then show ?thesis by (simp add: startswith_def)
  next
    case (Cons d ds)
    with ns show ?thesis by (simp add: startswith_def)
  qed
  with nl Cons.IH [OF pc] show ?case by simp
qed

lemma match_assign_record:
  assumes "ds \<noteq> []" "list_all is_ascii_digit ds" "plain_body b"
  shows "match_assign letter (letter # CHR ''['' # ds @ '']=['' @ b @ ''];'' @ rest) = Some (ds, b, rest)"
proof -
  have nd: "\<not> is_ascii_digit CHR '']''" by (simp add: is_ascii_digit_def)
  have tw: "takeWhile is_ascii_digit (ds @ CHR '']'' # xs) = ds" for xs
    using assms(2) nd by (induction ds) auto
  have dw: "dropWhile is_ascii_digit (ds @ CHR '']'' # xs) = CHR '']'' # xs" for xs
    using assms(2) nd by (induction ds) auto
  show ?thesis
    using assms(1) lazy_body_plain [OF assms(3), of rest]
    by (simp add: match_assign_def startswith_def tw dw)
qed

lemma finditer_record:
  assumes "ds \<noteq> []" "list_all is_ascii_digit ds" "plain_body b"
  shows "finditer letter (letter # CHR ''['' # ds @ '']=['' @ b @ ''];'' @ rest)
         = (ds, b) # finditer letter rest"
  using match_assign_record [OF assms, of letter rest] by simp

lemma parse_match_data_SomeD:
  assumes "parse_match_data b = Some r"
  shows "7 \<le> length (split_fields b)"
    and "int_if_digit (split_fields b ! 0) = Inr (match_id r)"
    and "int_if_digit (split_fields b ! 1) = Inr (league_id r)"
    and "int_if_digit (split_fields b ! 2) = Inr (home_team_id r)"
    and "int_if_digit (split_fields b ! 3) = Inr (away_team_id r)"
    and "home_team r = split_fields b ! 4"
    and "away_team r = split_fields b ! 5"
    and "match_time r = parse_datetime (split_fields b ! 6)"
    and "match_datetime_raw r = split_fields b ! 6"
  using assms
  by (auto simp: parse_match_data_def parse_match_data_try_def Let_def
      split: if_splits sum.splits)


section \<open>Facts about datetime strings\<close>









section \<open>Facts about the date listing\<close>

lemma collect_matches_eq:
  "collect_matches lgs acc ms = acc @ map (format_match lgs) (filter has_time ms)"
  by (induction ms arbitrary: acc) (auto simp: has_time_def split: option.splits)

lemma format_match_time_null:
  "match_time m = None \<Longrightarrow> has_time m' \<Longrightarrow> format_match lgs m \<noteq> format_match lgs m'"
  by (auto simp: format_match_def has_time_def Let_def split: option.splits)

section \<open>Facts about the upstream client\<close>

lemma fetch_url_key: "fst (fetch_url loads a url key) = key"
  by (auto simp: fetch_url_def fetch_url_try_def handle_exception_def Let_def
      split: sum.splits exn.splits if_splits)

section \<open>Facts about the HTML extractors\<close>

lemma block_rows_eq:
  "block_rows (block_headers h) acc rows = acc @ accepted_rows h rows"
  by (induction rows arbitrary: acc)
    (auto simp: accepted_rows_def fits_header_def cells_of_def Let_def)

lemma parse_block_eq: "parse_block (h # rows) = accepted_rows h rows"
proof (cases rows)
  case Nil
  then show ?thesis by (simp add: parse_block_def accepted_rows_def)
next
  case (Cons r rs)
  then have "parse_block (h # rows) = block_rows (block_headers h) [] rows"
    by (simp add: parse_block_def del: block_rows.simps)
  then show ?thesis by (simp only: block_rows_eq append_Nil)
qed

lemma find_split_index_None:
  "(\<forall>r \<in> set rows. \<not> splits_here r) \<Longrightarrow> find_split_index k rows = None"
  by (induction rows arbitrary: k) auto

lemma find_split_index_Some:
  "i < length rows \<Longrightarrow> splits_here (rows ! i) \<Longrightarrow> (\<forall>j<i. \<not> splits_here (rows ! j))
     \<Longrightarrow> find_split_index k rows = Some (k + i)"
proof (induction rows arbitrary: k i)
  case Nil
  then show ?case by simp
next
  case (Cons r rows)
  show ?case
  proof (cases i)
    case 0
    with Cons.prems show ?thesis by simp
  next
    case (Suc i')
    from Cons.prems Suc have "\<not> splits_here r" by auto
    moreover have "find_split_index (Suc k) rows = Some (Suc k + i')"
    proof (rule Cons.IH)
      show "i' < length rows" using Cons.prems Suc by simp
      show "splits_here (rows ! i')" using Cons.prems Suc by simp
      show "\<forall>j<i'. \<not> splits_here (rows ! j)"
      proof (intro allI impI)
        fix j assume "j < i'"
        then have "Suc j < i" using Suc by simp
        with Cons.prems(3) have "\<not> splits_here ((r # rows) ! Suc j)" by blast
        then show "\<not> splits_here (rows ! j)" by simp
      qed
    qed
    ultimately show ?thesis using Suc by simp
  qed
qed

lemma dict_set_fresh: "k \<notin> fst ` set d \<Longrightarrow> dict_set d k v = d @ [(k, v)]"
  by (induction d) auto

lemma dict_of_items_distinct_aux:
  "distinct (map fst (d @ items)) \<Longrightarrow>
     foldl (\<lambda>d (k, v). dict_set d k v) d items = d @ items"
proof (induction items arbitrary: d)
  case Nil
  then show ?case by simp
next
  case (Cons kv items)
  obtain k v where kv: "kv = (k, v)" by (cases kv)
  from Cons.prems kv have fresh: "k \<notin> fst ` set d" by auto
  from Cons.prems kv have "distinct (map fst ((d @ [(k, v)]) @ items))" by simp
  from Cons.IH [OF this] fresh kv show ?case by (simp add: dict_set_fresh)
qed

lemma dict_of_items_distinct:
  "distinct (map fst items) \<Longrightarrow> dict_of_items items = items"
  using dict_of_items_distinct_aux [of "[]" items] by (simp add: dict_of_items_def)

lemma row_data_distinct:
  assumes "distinct headers" "length cells = length headers"
  shows "row_data headers cells = JDict (zip headers (map (\<lambda>c. JStr (stripped_text c)) cells))"
proof -
  have "map fst (zip headers (map (\<lambda>c. JStr (stripped_text c)) cells)) = headers"
    using assms(2) by simp
  with assms(1) show ?thesis by (simp add: row_data_def dict_of_items_distinct)
qed

lemma py_in_single: "py_in [c] s \<longleftrightarrow> c \<in> set s"
  by (induction s) (auto simp: startswith_def)

lemma py_split_unfold:
  "py_split c s = takeWhile (\<lambda>x. x \<noteq> c) s #
     (if c \<in> set s then py_split c (tl (dropWhile (\<lambda>x. x \<noteq> c) s)) else [])"
  by (induction s) (auto simp: Let_def)

lemma py_split_parts:
  assumes "c \<in> set s"
  shows "2 \<le> length (py_split c s)"
    and "py_split c s ! 0 = takeWhile (\<lambda>x. x \<noteq> c) s"
    and "py_split c s ! 1 = takeWhile (\<lambda>x. x \<noteq> c) (tl (dropWhile (\<lambda>x. x \<noteq> c) s))"
proof -
  let ?rest = "tl (dropWhile (\<lambda>x. x \<noteq> c) s)"
  have u: "py_split c s = takeWhile (\<lambda>x. x \<noteq> c) s # py_split c ?rest"
    using py_split_unfold [of c s] assms by simp
  have v: "py_split c ?rest = takeWhile (\<lambda>x. x \<noteq> c) ?rest #
     (if c \<in> set ?rest then py_split c (tl (dropWhile (\<lambda>x. x \<noteq> c) ?rest)) else [])"
    by (rule py_split_unfold)
  show "2 \<le> length (py_split c s)" by (subst u, subst v) simp
  show "py_split c s ! 0 = takeWhile (\<lambda>x. x \<noteq> c) s" by (subst u) simp
  show "py_split c s ! 1 = takeWhile (\<lambda>x. x \<noteq> c) ?rest" by (subst u, subst v) simp
qed

lemma score_info_ht:
  assumes "find_bs ''div'' (has_attr ''id'' ''mScore'') header = Some sc"
    and "find_bs ''span'' (has_attr ''title'' ''Score 1st Half'') sc = Some sp"
  shows "jget (score_info header) ''ht_score'' = JStr (stripped_text sp)"
    and "jget (score_info header) ''ht_home_score''
           = JStr (if py_in ''-'' (stripped_text sp)
                   then py_split CHR ''-'' (stripped_text sp) ! 0 else [])"
    and "jget (score_info header) ''ht_away_score''
           = JStr (if py_in ''-'' (stripped_text sp)
                   then py_split CHR ''-'' (stripped_text sp) ! 1 else [])"
  using assms by (simp_all add: score_info_def ht_scores_def Let_def jget_def)

lemma parse_match_info_score_info:
  "find_bs ''div'' (has_attr ''id'' ''fbheader'') soup = Some header \<Longrightarrow>
     jget (parse_match_info render soup) ''score_info'' = score_info header"
  by (simp add: parse_match_info_def Let_def jget_def)

section \<open>Claims about score cleanup\<close>

text \<open>
  C5 (as stated): \<open>clean_score_data\<close> is idempotent on every string. The function removes
  one layer of parentheses per call, so a doubly parenthesised score is a counterexample:
  the first call yields \<open>(2-1)\<close>, the second \<open>2-1\<close>.
\<close>

theorem clean_score_data_not_idempotent:
  "clean_score_data (clean_score_data ''((2-1))'') \<noteq> clean_score_data ''((2-1))''"
  by (simp add: clean_score_data_def enclosed_def startswith_def endswith_def
      py_strip_def py_lstrip_def py_rstrip_def py_isspace_def)

text \<open>
  C5 (amended): one layer of enclosing parentheses is stripped; a second application
  changes nothing whenever the first result is not itself enclosed in parentheses, and
  the two documented examples both give \<open>2-1\<close>.
\<close>

theorem clean_score_data_idempotent_one_layer:
  "(\<forall>s. \<not> enclosed (clean_score_data s) \<longrightarrow>
        clean_score_data (clean_score_data s) = clean_score_data s)
   \<and> clean_score_data ''(2-1)'' = ''2-1''
   \<and> clean_score_data ''2-1'' = ''2-1''"
proof (intro conjI allI impI)
  fix s assume "\<not> enclosed (clean_score_data s)"
  then show "clean_score_data (clean_score_data s) = clean_score_data s"
    by (rule clean_score_data_step)
next
  show "clean_score_data ''(2-1)'' = ''2-1''"
    by (simp add: clean_score_data_def enclosed_def startswith_def endswith_def
        py_strip_def py_lstrip_def py_rstrip_def py_isspace_def)
next
  show "clean_score_data ''2-1'' = ''2-1''"
    by (simp add: clean_score_data_def enclosed_def startswith_def endswith_def
        py_strip_def py_lstrip_def py_rstrip_def py_isspace_def)
qed

theorem clean_score_data_idempotent_one_layer_witness:
  "\<not> enclosed (clean_score_data '' (2-1) '')
   \<and> clean_score_data (clean_score_data '' (2-1) '') = clean_score_data '' (2-1) ''
   \<and> clean_score_data '' (2-1) '' = ''2-1''"
proof -
  have v: "clean_score_data '' (2-1) '' = ''2-1''"
    by (simp add: clean_score_data_def enclosed_def startswith_def endswith_def
        py_strip_def py_lstrip_def py_rstrip_def py_isspace_def)
  have h: "\<not> enclosed (clean_score_data '' (2-1) '')"
    by (simp add: v enclosed_def startswith_def endswith_def)
  from clean_score_data_idempotent_one_layer h
  have "clean_score_data (clean_score_data '' (2-1) '') = clean_score_data '' (2-1) ''"
    by blast
  with h v show ?thesis by simp
qed

section \<open>Claims about the embedded-script parser\<close>

text \<open>
  C3: a record whose parse raises is to be skipped without stopping the batch. The code
  does skip a record with fewer than seven fields, but a record whose index has more
  than 4300 digits makes \<open>int\<close> raise inside the \<open>try\<close> of \<open>_parse_matches\<close>; the handler
  then reads \<open>index\<close>, which is unbound when this is the first record, and the
  \<open>UnboundLocalError\<close> ends \<open>_parse_matches\<close> although the next record is a good one.
  The same good record is returned when it stands alone, and when a record with too few
  fields and other text come before it.
\<close>

theorem long_index_aborts_batch:
  "parse_matches (''A['' @ replicate 4301 CHR ''1''
       @ '']=[garbage];A[2]=['124','4','10','20','Home FC','Away FC','2025,7,24,13,0,0'];'')
     = Inl UnboundLocalError
   \<and> parse_matches ''A[2]=['124','4','10','20','Home FC','Away FC','2025,7,24,13,0,0'];''
     = Inr [\<lparr>match_id = Some 124, league_id = Some 4, home_team_id = Some 10,
             away_team_id = Some 20, home_team = ''Home FC'', away_team = ''Away FC'',
             match_time = Some \<lparr>year = 2025, month = 7, day = 24, hour = 13, minute = 0, second = 0\<rparr>,
             match_datetime_raw = ''2025,7,24,13,0,0''\<rparr>]
   \<and> parse_matches ''var A=[];A[1]=[garbage]; B[0]=[7,'L'];A[2]=['124','4','10','20','Home FC','Away FC','2025,7,24,13,0,0'];''
     = Inr [\<lparr>match_id = Some 124, league_id = Some 4, home_team_id = Some 10,
             away_team_id = Some 20, home_team = ''Home FC'', away_team = ''Away FC'',
             match_time = Some \<lparr>year = 2025, month = 7, day = 24, hour = 13, minute = 0, second = 0\<rparr>,
             match_datetime_raw = ''2025,7,24,13,0,0''\<rparr>]"
proof -
  let ?ds = "replicate 4301 CHR ''1''"
  let ?rest = "''A[2]=['124','4','10','20','Home FC','Away FC','2025,7,24,13,0,0'];''"
  have one: "is_ascii_digit CHR ''1''" by (simp add: is_ascii_digit_def)
  then have digits: "list_all is_ascii_digit ?ds" by (simp add: list_all_iff)
  have ne: "?ds \<noteq> []" by simp
  have pb: "plain_body ''garbage''" by code_simp
  have "int_max_str_digits < length ?ds" by (simp add: int_max_str_digits_def)
  with digits have none: "py_int ?ds = None" by (rule py_int_over_cap)
  have "finditer CHR ''A'' (CHR ''A'' # CHR ''['' # ?ds @ '']=['' @ ''garbage'' @ ''];'' @ ?rest)
          = (?ds, ''garbage'') # finditer CHR ''A'' ?rest"
    using ne digits pb by (rule finditer_record)
  then have "parse_matches (CHR ''A'' # CHR ''['' # ?ds @ '']=['' @ ''garbage'' @ ''];'' @ ?rest)
          = Inl UnboundLocalError"
    by (simp add: parse_matches_def none)
  then have first: "parse_matches (''A['' @ ?ds @ '']=[garbage];'' @ ?rest) = Inl UnboundLocalError"
    by simp
  have second: "parse_matches ?rest
     = Inr [\<lparr>match_id = Some 124, league_id = Some 4, home_team_id = Some 10,
             away_team_id = Some 20, home_team = ''Home FC'', away_team = ''Away FC'',
             match_time = Some \<lparr>year = 2025, month = 7, day = 24, hour = 13, minute = 0, second = 0\<rparr>,
             match_datetime_raw = ''2025,7,24,13,0,0''\<rparr>]"
    by code_simp
  have third: "parse_matches ''var A=[];A[1]=[garbage]; B[0]=[7,'L'];A[2]=['124','4','10','20','Home FC','Away FC','2025,7,24,13,0,0'];''
     = Inr [\<lparr>match_id = Some 124, league_id = Some 4, home_team_id = Some 10,
             away_team_id = Some 20, home_team = ''Home FC'', away_team = ''Away FC'',
             match_time = Some \<lparr>year = 2025, month = 7, day = 24, hour = 13, minute = 0, second = 0\<rparr>,
             match_datetime_raw = ''2025,7,24,13,0,0''\<rparr>]"
    by code_simp
  from first second third show ?thesis by simp
qed



text \<open>
  C9 (as stated): every accepted record has an integer \<open>match_id\<close>. A record with seven
  fields whose first field is not a digit string is accepted with a null \<open>match_id\<close>.
\<close>

theorem match_id_may_be_null:
  "7 \<le> length (split_fields ''abc,'4','10','20','Home FC','Away FC','2025,7,24,13,0,0' '')
   \<and> map_option match_id
        (parse_match_data ''abc,'4','10','20','Home FC','Away FC','2025,7,24,13,0,0' '')
       = Some None"
  by code_simp

text \<open>
  C9 (amended): every accepted record has at least seven fields, and its \<open>match_id\<close> is
  the integer value of field 0 when that field consists of digit characters only, and
  null otherwise: \<open>match_id\<close> is optional in the same way as \<open>league_id\<close> and the team ids.
\<close>

theorem match_id_from_digit_field:
  "parse_match_data data_str = Some r \<Longrightarrow>
     7 \<le> length (split_fields data_str)
     \<and> match_id r = (if py_isdigit (split_fields data_str ! 0)
                      then py_int (split_fields data_str ! 0) else None)
     \<and> (py_isdigit (split_fields data_str ! 0) \<longrightarrow> match_id r \<noteq> None)"
proof -
  assume a: "parse_match_data data_str = Some r"
  note d = parse_match_data_SomeD [OF a]
  let ?p = "split_fields data_str ! 0"
  show ?thesis
  proof (cases "py_isdigit ?p")
    case False
    with d(2) have "match_id r = None" by (simp add: int_if_digit_def)
    with d(1) False show ?thesis by simp
  next
    case True
    show ?thesis
    proof (cases "py_int ?p")
      case None
      with d(2) True show ?thesis by (simp add: int_if_digit_def)
    next
      case (Some v)
      with d(2) True have "match_id r = Some v" by (simp add: int_if_digit_def)
      with d(1) True Some show ?thesis by simp
    qed
  qed
qed

theorem match_id_from_digit_field_witness:
  "parse_match_data ''123,'4','10','20','Home FC','Away FC','2025,13' '' =
     Some \<lparr>match_id = Some 123, league_id = Some 4, home_team_id = Some 10,
           away_team_id = Some 20, home_team = ''Home FC'', away_team = ''Away FC'',
           match_time = None, match_datetime_raw = ''2025,13''\<rparr>
   \<and> py_isdigit (split_fields ''123,'4','10','20','Home FC','Away FC','2025,13' '' ! 0)
   \<and> py_int (split_fields ''123,'4','10','20','Home FC','Away FC','2025,13' '' ! 0) = Some 123"
proof -
  let ?d = "''123,'4','10','20','Home FC','Away FC','2025,13' ''"
  let ?r = "\<lparr>match_id = Some 123, league_id = Some 4, home_team_id = Some 10,
           away_team_id = Some 20, home_team = ''Home FC'', away_team = ''Away FC'',
           match_time = None, match_datetime_raw = ''2025,13''\<rparr>"
  have p: "parse_match_data ?d = Some ?r" by code_simp
  have g: "py_isdigit (split_fields ?d ! 0)" by code_simp
  have m: "match_id ?r = Some 123" by simp
  from match_id_from_digit_field [OF p]
  have "match_id ?r = (if py_isdigit (split_fields ?d ! 0)
                       then py_int (split_fields ?d ! 0) else None)"
    by (rule conjunct1 [OF conjunct2])
  with g have "match_id ?r = py_int (split_fields ?d ! 0)" by (simp only: if_True)
  with m have "py_int (split_fields ?d ! 0) = Some 123" by (simp only:)
  with p g show ?thesis by (intro conjI)
qed

section \<open>Claims about the date listing\<close>

text \<open>
  C10: the date endpoint lists a parsed record if and only if its \<open>match_time\<close> is not
  null: \<open>matches\<close> is the formatting of exactly the records with a timestamp, in order,
  \<open>match_count\<close> is their number, and a record whose datetime failed to parse (kept by
  the parser with a null \<open>match_time\<close>) does not appear in the output.
\<close>

theorem date_listing_keeps_timed_matches:
  "matches (get_matches_by_date_result date_str now ms lgs)
     = map (format_match lgs) (filter has_time ms)
   \<and> match_count (get_matches_by_date_result date_str now ms lgs) = length (filter has_time ms)
   \<and> (\<forall>m \<in> set ms. match_time m = None \<longrightarrow>
         format_match lgs m \<notin> set (matches (get_matches_by_date_result date_str now ms lgs)))"
proof (intro conjI ballI impI)
  show "matches (get_matches_by_date_result date_str now ms lgs)
     = map (format_match lgs) (filter has_time ms)"
    by (simp add: get_matches_by_date_result_def collect_matches_eq)
  show "match_count (get_matches_by_date_result date_str now ms lgs) = length (filter has_time ms)"
    by (simp add: get_matches_by_date_result_def collect_matches_eq)
next
  fix m assume "m \<in> set ms" and n: "match_time m = None"
  have "format_match lgs m \<notin> format_match lgs ` set (filter has_time ms)"
    using format_match_time_null [OF n] by auto
  then show "format_match lgs m \<notin> set (matches (get_matches_by_date_result date_str now ms lgs))"
    by (simp add: get_matches_by_date_result_def collect_matches_eq)
qed

theorem date_listing_keeps_timed_matches_witness:
  "parse_matches ''A[0]=['123','4','10','20','Home FC','Away FC','2025,7,24,13,0,0'];A[1]=['124','4','11','21','Foo','Bar','2025,13'];''
     = Inr [\<lparr>match_id = Some 123, league_id = Some 4, home_team_id = Some 10,
         away_team_id = Some 20, home_team = ''Home FC'', away_team = ''Away FC'',
         match_time = Some \<lparr>year = 2025, month = 7, day = 24, hour = 13, minute = 0, second = 0\<rparr>,
         match_datetime_raw = ''2025,7,24,13,0,0''\<rparr>,
        \<lparr>match_id = Some 124, league_id = Some 4, home_team_id = Some 11,
         away_team_id = Some 21, home_team = ''Foo'', away_team = ''Bar'',
         match_time = None, match_datetime_raw = ''2025,13''\<rparr>]
   \<and> match_count (get_matches_by_date_result ''2025-07-24'' ''now''
        [\<lparr>match_id = Some 123, league_id = Some 4, home_team_id = Some 10,
         away_team_id = Some 20, home_team = ''Home FC'', away_team = ''Away FC'',
         match_time = Some \<lparr>year = 2025, month = 7, day = 24, hour = 13, minute = 0, second = 0\<rparr>,
         match_datetime_raw = ''2025,7,24,13,0,0''\<rparr>,
        \<lparr>match_id = Some 124, league_id = Some 4, home_team_id = Some 11,
         away_team_id = Some 21, home_team = ''Foo'', away_team = ''Bar'',
         match_time = None, match_datetime_raw = ''2025,13''\<rparr>]
        (\<lambda>i. None)) = 1
   \<and> format_match (\<lambda>i. None)
        \<lparr>match_id = Some 124, league_id = Some 4, home_team_id = Some 11,
         away_team_id = Some 21, home_team = ''Foo'', away_team = ''Bar'',
         match_time = None, match_datetime_raw = ''2025,13''\<rparr>
       \<notin> set (matches (get_matches_by_date_result ''2025-07-24'' ''now''
        [\<lparr>match_id = Some 123, league_id = Some 4, home_team_id = Some 10,
         away_team_id = Some 20, home_team = ''Home FC'', away_team = ''Away FC'',
         match_time = Some \<lparr>year = 2025, month = 7, day = 24, hour = 13, minute = 0, second = 0\<rparr>,
         match_datetime_raw = ''2025,7,24,13,0,0''\<rparr>,
        \<lparr>match_id = Some 124, league_id = Some 4, home_team_id = Some 11,
         away_team_id = Some 21, home_team = ''Foo'', away_team = ''Bar'',
         match_time = None, match_datetime_raw = ''2025,13''\<rparr>]
        (\<lambda>i. None)))"
proof -
  let ?js = "''A[0]=['123','4','10','20','Home FC','Away FC','2025,7,24,13,0,0'];A[1]=['124','4','11','21','Foo','Bar','2025,13'];''"
  let ?good = "\<lparr>match_id = Some 123, league_id = Some 4, home_team_id = Some 10,
         away_team_id = Some 20, home_team = ''Home FC'', away_team = ''Away FC'',
         match_time = Some \<lparr>year = 2025, month = 7, day = 24, hour = 13, minute = 0, second = 0\<rparr>,
         match_datetime_raw = ''2025,7,24,13,0,0''\<rparr>"
  let ?bad = "\<lparr>match_id = Some 124, league_id = Some 4, home_team_id = Some 11,
         away_team_id = Some 21, home_team = ''Foo'', away_team = ''Bar'',
         match_time = None, match_datetime_raw = ''2025,13''\<rparr>"
  have p: "parse_matches ?js = Inr [?good, ?bad]" by code_simp
  note t = date_listing_keeps_timed_matches [of "''2025-07-24''" "''now''" "[?good, ?bad]" "\<lambda>i. None"]
  have mem: "?bad \<in> set [?good, ?bad]" by simp
  have nt: "match_time ?bad = None" by simp
  from t have c: "match_count (get_matches_by_date_result ''2025-07-24'' ''now'' [?good, ?bad] (\<lambda>i. None))
        = length (filter has_time [?good, ?bad])"
    by (rule conjunct1 [OF conjunct2])
  have "length (filter has_time [?good, ?bad]) = 1" by (simp add: has_time_def)
  with c have c1: "match_count (get_matches_by_date_result ''2025-07-24'' ''now'' [?good, ?bad] (\<lambda>i. None)) = 1"
    by simp
  from t have "\<forall>m \<in> set [?good, ?bad]. match_time m = None \<longrightarrow>
         format_match (\<lambda>i. None) m \<notin> set (matches (get_matches_by_date_result ''2025-07-24'' ''now'' [?good, ?bad] (\<lambda>i. None)))"
    by (rule conjunct2 [OF conjunct2])
  from bspec [OF this mem] nt
  have ex: "format_match (\<lambda>i. None) ?bad \<notin> set (matches (get_matches_by_date_result ''2025-07-24'' ''now'' [?good, ?bad] (\<lambda>i. None)))"
    by (rule mp)
  from p c1 ex show ?thesis by (intro conjI)
qed

section \<open>Claims about the HTML extractors\<close>

text \<open>
  C2 (as stated): every extractor answers a missing container with a marker
  \<open>{error: ...}\<close>. On a document without the standings container and without the match
  tables, \<open>parse_standings\<close> returns the empty dict and \<open>parse_match_list_table\<close> the
  empty list; neither is a marker.
\<close>

theorem standings_and_lists_have_no_marker:
  "find_bs ''div'' (has_attr ''id'' ''porletP4'') ex_empty_doc = None
   \<and> parse_standings ex_empty_doc = Inr (JDict [])
   \<and> \<not> is_not_found_marker (JDict [])
   \<and> find_bs ''table'' (has_attr ''id'' ''table_v1'') ex_empty_doc = None
   \<and> parse_match_list_table ex_empty_doc ''table_v1'' = JList []
   \<and> \<not> is_not_found_marker (JList [])"
  by code_simp

text \<open>
  C2 (amended): when its container is missing, each of \<open>parse_match_info\<close>,
  \<open>parse_fixture\<close>, \<open>parse_injury_suspension\<close> and \<open>parse_last_match_lineups\<close> returns
  its marker \<open>{error: "... not found."}\<close>, \<open>parse_standings\<close> returns the empty dict and
  \<open>parse_match_list_table\<close> the empty list; none of them raises.
\<close>

theorem missing_container_results:
  "(find_bs ''div'' (has_attr ''id'' ''fbheader'') soup = None \<longrightarrow>
      parse_match_info render soup = not_found ''Match info header (fbheader) not found.'')
   \<and> (find_bs ''div'' (has_attr ''id'' ''porletP12'') soup = None \<longrightarrow>
      parse_fixture soup = not_found ''Fixture section (porletP12) not found.'')
   \<and> (find_bs ''div'' (has_attr ''id'' ''porletP13'') soup = None \<longrightarrow>
      parse_injury_suspension soup
        = not_found ''Injury and Suspension section (porletP13) not found.'')
   \<and> (find_bs ''div'' (has_attr ''id'' ''porletP14'') soup = None \<longrightarrow>
      parse_last_match_lineups soup
        = not_found ''Last Match Lineups section (porletP14) not found.'')
   \<and> (find_bs ''div'' (has_attr ''id'' ''porletP4'') soup = None \<longrightarrow>
      parse_standings soup = Inr (JDict []))
   \<and> (find_bs ''table'' (has_attr ''id'' table_id) soup = None \<longrightarrow>
      parse_match_list_table soup table_id = JList [])
   \<and> is_not_found_marker (not_found msg)"
proof (intro conjI impI)
  assume "find_bs ''div'' (has_attr ''id'' ''fbheader'') soup = None"
  then show "parse_match_info render soup = not_found ''Match info header (fbheader) not found.''"
    by (simp add: parse_match_info_def)
next
  assume "find_bs ''div'' (has_attr ''id'' ''porletP12'') soup = None"
  then show "parse_fixture soup = not_found ''Fixture section (porletP12) not found.''"
    by (simp add: parse_fixture_def)
next
  assume "find_bs ''div'' (has_attr ''id'' ''porletP13'') soup = None"
  then show "parse_injury_suspension soup
        = not_found ''Injury and Suspension section (porletP13) not found.''"
    by (simp add: parse_injury_suspension_def)
next
  assume "find_bs ''div'' (has_attr ''id'' ''porletP14'') soup = None"
  then show "parse_last_match_lineups soup
        = not_found ''Last Match Lineups section (porletP14) not found.''"
    by (simp add: parse_last_match_lineups_def)
next
  assume "find_bs ''div'' (has_attr ''id'' ''porletP4'') soup = None"
  then show "parse_standings soup = Inr (JDict [])"
    by (simp add: parse_standings_def)
next
  assume "find_bs ''table'' (has_attr ''id'' table_id) soup = None"
  then show "parse_match_list_table soup table_id = JList []"
    by (simp add: parse_match_list_table_def)
next
  show "is_not_found_marker (not_found msg)"
    by (simp add: is_not_found_marker_def not_found_def)
qed

theorem missing_container_results_witness:
  "parse_match_info no_markup ex_empty_doc = not_found ''Match info header (fbheader) not found.''
   \<and> parse_fixture ex_empty_doc = not_found ''Fixture section (porletP12) not found.''
   \<and> parse_injury_suspension ex_empty_doc
        = not_found ''Injury and Suspension section (porletP13) not found.''
   \<and> parse_last_match_lineups ex_empty_doc
        = not_found ''Last Match Lineups section (porletP14) not found.''
   \<and> parse_standings ex_empty_doc = Inr (JDict [])
   \<and> parse_match_list_table ex_empty_doc ''table_v3'' = JList []"
proof -
  have n: "find_bs nm p ex_empty_doc = None" if "nm \<noteq> ''html''" "nm \<noteq> ''body''" for nm p
    using that by (simp add: find_bs_def find_all_def ex_empty_doc_def is_tag_def)
  have d: "''div'' \<noteq> ''html''" "''div'' \<noteq> ''body''" "''table'' \<noteq> ''html''" "''table'' \<noteq> ''body''"
    by simp_all
  note t = missing_container_results [of ex_empty_doc no_markup "''table_v3''"]
  from t n [OF d(1,2)] have 1: "parse_match_info no_markup ex_empty_doc
      = not_found ''Match info header (fbheader) not found.''" by blast
  from t n [OF d(1,2)] have 2: "parse_fixture ex_empty_doc
      = not_found ''Fixture section (porletP12) not found.''" by blast
  from t n [OF d(1,2)] have 3: "parse_injury_suspension ex_empty_doc
        = not_found ''Injury and Suspension section (porletP13) not found.''" by blast
  from t n [OF d(1,2)] have 4: "parse_last_match_lineups ex_empty_doc
        = not_found ''Last Match Lineups section (porletP14) not found.''" by blast
  from t n [OF d(1,2)] have 5: "parse_standings ex_empty_doc = Inr (JDict [])" by blast
  from t n [OF d(3,4)] have 6: "parse_match_list_table ex_empty_doc ''table_v3'' = JList []" by blast
  from 1 2 3 4 5 6 show ?thesis by (intro conjI)
qed

text \<open>
  C7 (as stated): the table is split at the row whose header cell equals \<open>HT\<close>. In a
  table whose title row reads \<open>BRIGHTON\<close>, only the fourth row has such a cell, but the
  code splits at the title row, whose text contains \<open>HT\<close>; both blocks come out empty.
\<close>

theorem split_row_need_not_have_HT_cell:
  "map header_cell_is_HT (find_all ''tr'' any_tag ex_titled_table) = [False, False, False, True, False]
   \<and> find_split_index 0 (find_all ''tr'' any_tag ex_titled_table) = Some 0
   \<and> parse_standings_table ex_titled_table
       = Inr (JDict [(''full_time'', JList []), (''half_time'', JList [])])"
  by code_simp

text \<open>
  C7 (amended): for a table with at least two rows, the table is split at the first row
  whose text contains \<open>HT\<close> and that has a header cell. With that row at index \<open>i\<close>, the
  full-time block has the second row of the table as header and the rows 2 to \<open>i - 1\<close>
  as data, the half-time block has row \<open>i\<close> as header and all later rows as data. When
  no row of the table passes that test, both blocks are empty. A data row is in the
  output of its block if and only if it has as many value cells as the header row has
  header cells, and it is keyed by the header texts (with distinct header texts, key
  \<open>i\<close> is header text \<open>i\<close> and its value the text of cell \<open>i\<close>).
\<close>

theorem standings_table_blocks:
  "(let all_rows = find_all ''tr'' any_tag table in
     ((\<forall>r \<in> set all_rows. \<not> splits_here r) \<longrightarrow>
        parse_standings_table table
          = Inr (JDict [(''full_time'', JList []), (''half_time'', JList [])]))
     \<and> (\<forall>i. i < length all_rows \<and> splits_here (all_rows ! i)
            \<and> (\<forall>j<i. \<not> splits_here (all_rows ! j)) \<and> 2 \<le> length all_rows \<longrightarrow>
          parse_standings_table table
            = Inr (JDict [(''full_time'',
                             JList (accepted_rows (all_rows ! 1) (take (i - 2) (drop 2 all_rows)))),
                          (''half_time'',
                             JList (accepted_rows (all_rows ! i) (drop (Suc i) all_rows)))])))
   \<and> (\<forall>h rows v. v \<in> set (accepted_rows h rows) \<longleftrightarrow>
          (\<exists>r \<in> set rows. length (cells_of r) = length (block_headers h)
                           \<and> v = row_data (block_headers h) (cells_of r)))
   \<and> (\<forall>headers cells. distinct headers \<and> length cells = length headers \<longrightarrow>
          row_data headers cells = JDict (zip headers (map (\<lambda>c. JStr (stripped_text c)) cells)))"
proof (intro conjI)
  let ?rows = "find_all ''tr'' any_tag table"
  have none: "parse_standings_table table
          = Inr (JDict [(''full_time'', JList []), (''half_time'', JList [])])"
    if "\<forall>r \<in> set ?rows. \<not> splits_here r"
    using find_split_index_None [OF that, of 0] by (simp add: parse_standings_table_def)
  have some: "parse_standings_table table
            = Inr (JDict [(''full_time'',
                             JList (accepted_rows (?rows ! 1) (take (i - 2) (drop 2 ?rows)))),
                          (''half_time'',
                             JList (accepted_rows (?rows ! i) (drop (Suc i) ?rows)))])"
    if "i < length ?rows \<and> splits_here (?rows ! i)
            \<and> (\<forall>j<i. \<not> splits_here (?rows ! j)) \<and> 2 \<le> length ?rows" for i
  proof -
    from that have "find_split_index 0 ?rows = Some (0 + i)"
      by (intro find_split_index_Some) auto
    moreover from that have "\<not> length ?rows \<le> 1" by simp
    ultimately show ?thesis
      by (simp add: parse_standings_table_def Let_def parse_block_eq)
  qed
  show "let all_rows = ?rows in
     ((\<forall>r \<in> set all_rows. \<not> splits_here r) \<longrightarrow>
        parse_standings_table table
          = Inr (JDict [(''full_time'', JList []), (''half_time'', JList [])]))
     \<and> (\<forall>i. i < length all_rows \<and> splits_here (all_rows ! i)
            \<and> (\<forall>j<i. \<not> splits_here (all_rows ! j)) \<and> 2 \<le> length all_rows \<longrightarrow>
          parse_standings_table table
            = Inr (JDict [(''full_time'',
                             JList (accepted_rows (all_rows ! 1) (take (i - 2) (drop 2 all_rows)))),
                          (''half_time'',
                             JList (accepted_rows (all_rows ! i) (drop (Suc i) all_rows)))]))"
    unfolding Let_def using none some by blast
next
  show "\<forall>h rows v. v \<in> set (accepted_rows h rows) \<longleftrightarrow>
          (\<exists>r \<in> set rows. length (cells_of r) = length (block_headers h)
                           \<and> v = row_data (block_headers h) (cells_of r))"
    by (auto simp: accepted_rows_def fits_header_def)
next
  show "\<forall>headers cells. distinct headers \<and> length cells = length headers \<longrightarrow>
          row_data headers cells = JDict (zip headers (map (\<lambda>c. JStr (stripped_text c)) cells))"
    using row_data_distinct by blast
qed


theorem standings_table_blocks_witness:
  "parse_standings_table ex_plain_table
     = Inr (JDict [(''full_time'', JList [JDict [(''FT'', JStr ''Total''), (''Pts'', JStr ''30'')]]),
                   (''half_time'', JList [JDict [(''HT'', JStr ''Total''), (''Pts'', JStr ''20'')]])])"
proof -
  let ?rows = "find_all ''tr'' any_tag ex_plain_table"
  have len: "length ?rows = 6" by code_simp
  have here: "splits_here (?rows ! 4)" by code_simp
  have before: "\<forall>r \<in> set (take 4 ?rows). \<not> splits_here r" by code_simp
  have nohit: "\<forall>j<4. \<not> splits_here (?rows ! j)"
  proof (intro allI impI)
    fix j :: nat assume j: "j < 4"
    with len have "j < length (take 4 ?rows)" by simp
    then have "take 4 ?rows ! j \<in> set (take 4 ?rows)" by (rule nth_mem)
    moreover have "take 4 ?rows ! j = ?rows ! j" using j by (rule nth_take)
    ultimately have "?rows ! j \<in> set (take 4 ?rows)" by (simp only:)
    with before show "\<not> splits_here (?rows ! j)" by (rule bspec)
  qed
  have l4: "4 < length ?rows" and l2: "2 \<le> length ?rows" using len by simp_all
  have hyp: "4 < length ?rows \<and> splits_here (?rows ! 4)
            \<and> (\<forall>j<4. \<not> splits_here (?rows ! j)) \<and> 2 \<le> length ?rows"
    using l4 here nohit l2 by (intro conjI)
  note t = standings_table_blocks [of ex_plain_table, unfolded Let_def]
  note r = t [THEN conjunct1, THEN conjunct2, rule_format, OF hyp]
  have ft: "accepted_rows (?rows ! 1) (take (4 - 2) (drop 2 ?rows))
            = [JDict [(''FT'', JStr ''Total''), (''Pts'', JStr ''30'')]]"
    by code_simp
  have ht: "accepted_rows (?rows ! 4) (drop (Suc 4) ?rows)
            = [JDict [(''HT'', JStr ''Total''), (''Pts'', JStr ''20'')]]"
    by code_simp
  from r show ?thesis unfolding ft ht .
qed

text \<open>
  C8 (as stated): the first-half score is split only when both halves are present, and
  both sub-scores stay empty otherwise. For the score text \<open>1-\<close> the away half is
  absent, yet \<open>ht_home_score\<close> is \<open>1\<close>.
\<close>

theorem half_score_split_with_missing_half:
  "jget (jget (parse_match_info no_markup ex_half_score_doc) ''score_info'') ''ht_score'' = JStr ''1-''
   \<and> jget (jget (parse_match_info no_markup ex_half_score_doc) ''score_info'') ''ht_home_score'' = JStr ''1''
   \<and> jget (jget (parse_match_info no_markup ex_half_score_doc) ''score_info'') ''ht_away_score'' = JStr []"
  by code_simp

text \<open>
  C8 (amended): the first-half score text is split whenever it contains \<open>-\<close>:
  \<open>ht_home_score\<close> is the text before the first \<open>-\<close> and \<open>ht_away_score\<close> the text
  between the first \<open>-\<close> and the next one (or the end), either of which may be empty;
  when the text contains no \<open>-\<close>, both sub-scores remain empty.
\<close>

theorem half_score_split_on_separator:
  assumes "find_bs ''div'' (has_attr ''id'' ''fbheader'') soup = Some header"
    and "find_bs ''div'' (has_attr ''id'' ''mScore'') header = Some score_container"
    and "find_bs ''span'' (has_attr ''title'' ''Score 1st Half'') score_container = Some ht_score_span"
  shows "(let ht_score_full = stripped_text ht_score_span;
              info = jget (parse_match_info render soup) ''score_info''
          in jget info ''ht_score'' = JStr ht_score_full
             \<and> (if CHR ''-'' \<in> set ht_score_full
                 then jget info ''ht_home_score'' = JStr (takeWhile (\<lambda>c. c \<noteq> CHR ''-'') ht_score_full)
                    \<and> jget info ''ht_away_score''
                        = JStr (takeWhile (\<lambda>c. c \<noteq> CHR ''-'')
                                  (tl (dropWhile (\<lambda>c. c \<noteq> CHR ''-'') ht_score_full)))
                 else jget info ''ht_home_score'' = JStr []
                    \<and> jget info ''ht_away_score'' = JStr []))"
proof -
  let ?s = "stripped_text ht_score_span"
  note si = parse_match_info_score_info [OF assms(1), of render]
  note ht = score_info_ht [OF assms(2,3)]
  show ?thesis
  proof (cases "CHR ''-'' \<in> set ?s")
    case True
    then have "py_in ''-'' ?s" by (simp add: py_in_single)
    with True ht py_split_parts(2,3) [OF True] show ?thesis
      by (simp add: Let_def si)
  next
    case False
    then have "\<not> py_in ''-'' ?s" by (simp add: py_in_single)
    with False ht show ?thesis
      by (simp add: Let_def si)
  qed
qed

theorem half_score_split_on_separator_witness:
  "jget (jget (parse_match_info no_markup ex_full_score_doc) ''score_info'') ''ht_score'' = JStr ''1-0''
   \<and> jget (jget (parse_match_info no_markup ex_full_score_doc) ''score_info'') ''ht_home_score'' = JStr ''1''
   \<and> jget (jget (parse_match_info no_markup ex_full_score_doc) ''score_info'') ''ht_away_score'' = JStr ''0''"
proof -
  let ?span = "Tag ''span'' [(''title'', ''Score 1st Half'')] [NavigableString ''1-0'']"
  let ?sc = "Tag ''div'' [(''id'', ''mScore'')] [?span]"
  let ?hd = "Tag ''div'' [(''id'', ''fbheader'')] [?sc]"
  have a: "find_bs ''div'' (has_attr ''id'' ''fbheader'') ex_full_score_doc = Some ?hd" by code_simp
  have b: "find_bs ''div'' (has_attr ''id'' ''mScore'') ?hd = Some ?sc" by code_simp
  have c: "find_bs ''span'' (has_attr ''title'' ''Score 1st Half'') ?sc = Some ?span" by code_simp
  have s: "stripped_text ?span = ''1-0''" by code_simp
  have m: "CHR ''-'' \<in> set ''1-0''" by simp
  have h: "takeWhile (\<lambda>c. c \<noteq> CHR ''-'') ''1-0'' = ''1''" by simp
  have w: "takeWhile (\<lambda>c. c \<noteq> CHR ''-'') (tl (dropWhile (\<lambda>c. c \<noteq> CHR ''-'') ''1-0'')) = ''0''" by simp
  note t = half_score_split_on_separator [OF a b c, of no_markup, unfolded Let_def s]
  from t m show ?thesis unfolding h w by (simp only: if_True)
qed

section \<open>Claims about the upstream client\<close>

text \<open>
  C6 (as stated): with a content type that does not name JSON, a body that is valid JSON
  is returned as a success, and an error result keeps a preview of the body. A body
  that is one number of 4301 digits is valid JSON, but \<open>json.loads\<close> raises
  \<open>ValueError\<close> on it, which the inner handler does not catch: the result is the
  general error \<open>Unexpected error\<close>, without a preview.
\<close>

theorem unparsed_number_loses_preview:
  "\<not> says_json (Some ''text/html'')
   \<and> fetch_url ex_loads (ex_attempt (Some ''text/html'') (replicate 4301 CHR ''1'')) ''u'' ''odds''
     = (''odds'',
        ErrorInfo [(''error'', ''Unexpected error: Exceeds the limit (4300 digits) for integer string conversion'')],
        ''error'', 3)"
proof -
  have nj: "\<not> says_json (Some ''text/html'')" by code_simp
  have ne: "replicate 4301 CHR ''1'' \<noteq> ''[1]''"
  proof
    assume "replicate 4301 CHR ''1'' = ''[1]''"
    then have "length (replicate 4301 CHR ''1'') = length ''[1]''" by (rule arg_cong)
    then show False by simp
  qed
  have l: "ex_loads (replicate 4301 CHR ''1'')
           = Inl (OtherException ''Exceeds the limit (4300 digits) for integer string conversion'')"
    using ne by (simp add: ex_loads_def)
  have "fetch_url ex_loads (ex_attempt (Some ''text/html'') (replicate 4301 CHR ''1'')) ''u'' ''odds''
     = (''odds'',
        ErrorInfo [(''error'', ''Unexpected error: Exceeds the limit (4300 digits) for integer string conversion'')],
        ''error'', 3)"
    using nj by (simp add: fetch_url_def fetch_url_try_def handle_exception_def ex_attempt_def
        says_json_def Let_def l)
  with nj show ?thesis by simp
qed

text \<open>
  C6 (amended): for a request other than the HTML page whose response passes the status
  check: when the lower-cased \<open>content-type\<close> header contains neither
  \<open>application/json\<close> nor \<open>text/javascript\<close> and the body text is \<open>text\<close>, \<open>fetch_url\<close>
  gives \<open>text\<close> to \<open>json.loads\<close>; a value it returns is the \<open>json\<close> result; its
  \<open>JSONDecodeError\<close> gives an \<open>error\<close> result that keeps the first 200 characters of
  \<open>text\<close>; any other exception it raises gives the error result of the general
  handlers, without a preview. When the header does contain one of the two names, no
  such parse is attempted and the result is that of \<open>response.json()\<close>.
\<close>

theorem fallback_parse_outcomes:
  assumes "key \<noteq> ''h2h_details''"
    and "get_result a = Inr response"
    and "status response < 400"
  shows "(\<forall>text. \<not> says_json (content_type_header response) \<and> text_result response = Inr text \<longrightarrow>
           fetch_url loads a url key =
             (case loads text of
                Inr json_data \<Rightarrow> (key, Json json_data, ''json'', clock_headers a - clock_start a)
              | Inl (JSONDecodeError msg) \<Rightarrow>
                  (key, ErrorInfo [(''error'', ''Response is not JSON''), (''content'', take 200 text)],
                   ''error'', clock_headers a - clock_start a)
              | Inl (ClientError msg) \<Rightarrow>
                  (key, ErrorInfo [(''error'', ''Failed to fetch '' @ url), (''details'', msg)],
                   ''error'', clock_handler a - clock_start a)
              | Inl (OtherException msg) \<Rightarrow>
                  (key, ErrorInfo [(''error'', ''Unexpected error: '' @ msg)],
                   ''error'', clock_handler a - clock_start a)))
     \<and> (says_json (content_type_header response) \<longrightarrow>
           fetch_url loads a url key =
             (case json_result response of
                Inr json_data \<Rightarrow> (key, Json json_data, ''json'', clock_headers a - clock_start a)
              | Inl e \<Rightarrow> handle_exception a url key e))"
  using assms
  by (auto simp: fetch_url_def fetch_url_try_def handle_exception_def says_json_def Let_def
      split: sum.splits exn.splits)


theorem fallback_parse_outcomes_witness:
  "fetch_url ex_loads (ex_attempt (Some ''text/html'') ''[1]'') ''u'' ''odds''
     = (''odds'', Json 1, ''json'', 2)
   \<and> fetch_url ex_loads (ex_attempt (Some ''text/html'') ''<html>busy</html>'') ''u'' ''odds''
     = (''odds'', ErrorInfo [(''error'', ''Response is not JSON''), (''content'', ''<html>busy</html>'')],
        ''error'', 2)
   \<and> fetch_url ex_loads (ex_attempt (Some ''Text/JavaScript'') ''[1]'') ''u'' ''odds''
     = (''odds'', ErrorInfo [(''error'', ''Failed to fetch u''), (''details'', ''unexpected mimetype'')],
        ''error'', 3)"
proof -
  have k: "''odds'' \<noteq> ''h2h_details''" by simp
  have g: "get_result (ex_attempt h body)
           = Inr \<lparr>status = 200, status_error = [], content_type_header = h,
                  text_result = Inr body,
                  json_result = Inl (ClientError ''unexpected mimetype'')\<rparr>" for h body
    by (simp add: ex_attempt_def)
  have st: "status \<lparr>status = 200, status_error = [], content_type_header = h,
                  text_result = Inr body, json_result = jr\<rparr> < 400"
    for h body and jr :: "exn + nat"
    by simp
  note t = fallback_parse_outcomes [where loads = ex_loads and url = "''u''", OF k g st]
  have nj: "\<not> says_json (Some ''text/html'')" by code_simp
  have sj: "says_json (Some ''Text/JavaScript'')" by code_simp
  have c: "clock_headers (ex_attempt h body) - clock_start (ex_attempt h body) = 2"
    and c': "clock_handler (ex_attempt h body) - clock_start (ex_attempt h body) = 3" for h body
    by (simp_all add: ex_attempt_def)
  have nr: "''<html>busy</html>'' \<noteq> replicate 4301 CHR ''1''"
  proof
    assume "''<html>busy</html>'' = replicate 4301 CHR ''1''"
    then have "length ''<html>busy</html>'' = length (replicate 4301 CHR ''1'')" by (rule arg_cong)
    then show False by simp
  qed
  have l1: "ex_loads ''[1]'' = Inr 1" by (simp add: ex_loads_def)
  have l2: "ex_loads ''<html>busy</html>'' = Inl (JSONDecodeError ''Expecting value'')"
    using nr by (simp add: ex_loads_def)
  have 1: "fetch_url ex_loads (ex_attempt (Some ''text/html'') ''[1]'') ''u'' ''odds''
     = (''odds'', Json 1, ''json'', 2)"
    using t [of "Some ''text/html''" "''[1]''", THEN conjunct1, rule_format, of "''[1]''"] nj
    by (simp add: l1 c)
  have 2: "fetch_url ex_loads (ex_attempt (Some ''text/html'') ''<html>busy</html>'') ''u'' ''odds''
     = (''odds'', ErrorInfo [(''error'', ''Response is not JSON''), (''content'', ''<html>busy</html>'')],
        ''error'', 2)"
    using t [of "Some ''text/html''" "''<html>busy</html>''", THEN conjunct1, rule_format,
        of "''<html>busy</html>''"] nj
    by (simp add: l2 c)
  have 3: "fetch_url ex_loads (ex_attempt (Some ''Text/JavaScript'') ''[1]'') ''u'' ''odds''
     = (''odds'', ErrorInfo [(''error'', ''Failed to fetch u''), (''details'', ''unexpected mimetype'')],
        ''error'', 3)"
    using t [of "Some ''Text/JavaScript''" "''[1]''", THEN conjunct2, rule_format] sj
    by (simp add: handle_exception_def c')
  from 1 2 3 show ?thesis by (intro conjI)
qed

end
